theory Spec2Isabelle
  imports Main "HOL-Library.Word"
begin

section \<open>The logging header \<^verbatim>\<open>services/inc/logging.h\<close>\<close>

text \<open>
  The repository's source is one C header. It holds the \<^verbatim>\<open>LogLevel\<close> enumeration, the
  \<^verbatim>\<open>LogAttributes\<close> structure, the compile-time configuration macros, the category macros and
  the wrapper macros around the functions \<^verbatim>\<open>log_message\<close>, \<^verbatim>\<open>log_write\<close>, \<^verbatim>\<open>log_printf\<close>,
  \<^verbatim>\<open>log_dump\<close>, \<^verbatim>\<open>log_enabled\<close>, \<^verbatim>\<open>log_init_attr\<close> and \<^verbatim>\<open>panic_\<close>. The header only declares
  these functions: their bodies are in no file of the sources.

  A C pointer to a string is a \<open>string option\<close> (\<open>None\<close> is \<^verbatim>\<open>NULL\<close>), a \<^verbatim>\<open>void*\<close> is an
  address or \<open>None\<close>, a C \<^verbatim>\<open>int\<close> holding a level is an \<open>int\<close>.
\<close>

type_synonym cstr = "string option"
type_synonym voidptr = "nat option"
type_synonym byte = "8 word"

subsection \<open>\<^verbatim>\<open>enum LogLevel\<close> (lines 127 to 146)\<close>

text \<open>
  One constructor for each enumerator, in the order of the header; \<open>LogLevel_value\<close> is the
  integer the enumerator stands for. An enumerator defined from another one takes its value
  from it, as the header writes it.
\<close>

datatype LogLevel =
    LOG_LEVEL_ALL
  | LOG_LEVEL_TRACE
  | LOG_LEVEL_INFO
  | LOG_LEVEL_WARN
  | LOG_LEVEL_ERROR
  | LOG_LEVEL_PANIC
  | LOG_LEVEL_NONE
  | DEFAULT_LEVEL
  | ALL_LEVEL
  | TRACE_LEVEL
  | LOG_LEVEL
  | DEBUG_LEVEL
  | INFO_LEVEL
  | WARN_LEVEL
  | ERROR_LEVEL
  | PANIC_LEVEL
  | NO_LOG_LEVEL

function LogLevel_value :: "LogLevel \<Rightarrow> int" where
  "LogLevel_value LOG_LEVEL_ALL = 1"
| "LogLevel_value LOG_LEVEL_TRACE = 1"
| "LogLevel_value LOG_LEVEL_INFO = 30"
| "LogLevel_value LOG_LEVEL_WARN = 40"
| "LogLevel_value LOG_LEVEL_ERROR = 50"
| "LogLevel_value LOG_LEVEL_PANIC = 60"
| "LogLevel_value LOG_LEVEL_NONE = 70"
| "LogLevel_value DEFAULT_LEVEL = 0"
| "LogLevel_value ALL_LEVEL = LogLevel_value LOG_LEVEL_ALL"
| "LogLevel_value TRACE_LEVEL = LogLevel_value LOG_LEVEL_TRACE"
| "LogLevel_value LOG_LEVEL = LogLevel_value LOG_LEVEL_TRACE"
| "LogLevel_value DEBUG_LEVEL = LogLevel_value LOG_LEVEL_TRACE"
| "LogLevel_value INFO_LEVEL = LogLevel_value LOG_LEVEL_INFO"
| "LogLevel_value WARN_LEVEL = LogLevel_value LOG_LEVEL_WARN"
| "LogLevel_value ERROR_LEVEL = LogLevel_value LOG_LEVEL_ERROR"
| "LogLevel_value PANIC_LEVEL = LogLevel_value LOG_LEVEL_PANIC"
| "LogLevel_value NO_LOG_LEVEL = LogLevel_value LOG_LEVEL_NONE"
  by pat_completeness auto
termination
  by (relation "measure (\<lambda>l. if l \<in> {LOG_LEVEL_ALL, LOG_LEVEL_TRACE, LOG_LEVEL_INFO,
        LOG_LEVEL_WARN, LOG_LEVEL_ERROR, LOG_LEVEL_PANIC, LOG_LEVEL_NONE, DEFAULT_LEVEL}
      then 0 else 1)") auto

text \<open>
  The named thresholds of the scale, in the order of the header, and the enumerators under
  the header's comment \<^verbatim>\<open>// Compatibility levels\<close>.
\<close>

definition thresholds :: "LogLevel list" where
  "thresholds =
     [LOG_LEVEL_TRACE, LOG_LEVEL_INFO, LOG_LEVEL_WARN, LOG_LEVEL_ERROR, LOG_LEVEL_PANIC,
      LOG_LEVEL_NONE]"

definition compatibility_levels :: "LogLevel list" where
  "compatibility_levels =
     [DEFAULT_LEVEL, ALL_LEVEL, TRACE_LEVEL, LOG_LEVEL, DEBUG_LEVEL, INFO_LEVEL, WARN_LEVEL,
      ERROR_LEVEL, PANIC_LEVEL, NO_LOG_LEVEL]"

definition on_scale :: "LogLevel \<Rightarrow> bool" where
  "on_scale l = (LogLevel_value l \<in> set (map LogLevel_value thresholds))"

subsection \<open>Compile-time configuration (lines 206 to 219, 279 to 283, 339)\<close>

text \<open>
  A build is what the compiler is given: for each configuration macro whether it is defined
  and with which value, and the size of the structure \<^verbatim>\<open>LogAttributes\<close> on the target
  (\<^verbatim>\<open>sizeof(LogAttributes)\<close>). The header's \<^verbatim>\<open>#ifndef\<close> blocks supply the defaults.
\<close>

record build =
  def_LOG_COMPILE_TIME_LEVEL :: "int option"
  def_LOG_MAX_STRING_LENGTH :: "nat option"
  def_LOG_MODULE_CATEGORY :: "cstr option"
  def_LOG_INCLUDE_SOURCE_INFO :: bool
  def_LOG_DISABLE :: bool
  sizeof_LogAttributes :: nat

definition LOG_COMPILE_TIME_LEVEL :: "build \<Rightarrow> int" where
  "LOG_COMPILE_TIME_LEVEL b =
     (case def_LOG_COMPILE_TIME_LEVEL b of
        None \<Rightarrow> LogLevel_value LOG_LEVEL_ALL
      | Some v \<Rightarrow> v)"

definition LOG_MAX_STRING_LENGTH :: "build \<Rightarrow> nat" where
  "LOG_MAX_STRING_LENGTH b =
     (case def_LOG_MAX_STRING_LENGTH b of None \<Rightarrow> 160 | Some n \<Rightarrow> n)"

definition LOG_MODULE_CATEGORY :: "build \<Rightarrow> cstr" where
  "LOG_MODULE_CATEGORY b =
     (case def_LOG_MODULE_CATEGORY b of None \<Rightarrow> None | Some c \<Rightarrow> c)"

subsection \<open>\<^verbatim>\<open>struct LogAttributes\<close> and \<^verbatim>\<open>_LOG_INIT_ATTR\<close> (lines 149 to 156, 279 to 288)\<close>

record LogAttributes =
  attr_size :: nat
  attr_flags :: "32 word"
  attr_file :: cstr
  attr_line :: int
  attr_function :: cstr
  attr_time :: "32 word"

text \<open>
  What \<^verbatim>\<open>__FILE__\<close>, \<^verbatim>\<open>__LINE__\<close> and \<^verbatim>\<open>__PRETTY_FUNCTION__\<close> are where a macro is used.
\<close>

record source_location =
  loc_file :: string
  loc_line :: int
  loc_function :: string

definition LOG_SOURCE_INFO :: "build \<Rightarrow> source_location \<Rightarrow> cstr \<times> int \<times> cstr" where
  "LOG_SOURCE_INFO b loc =
     (if def_LOG_INCLUDE_SOURCE_INFO b
      then (Some (loc_file loc), loc_line loc, Some (loc_function loc))
      else (None, 0, None))"

text \<open>
  The initializer \<^verbatim>\<open>{ sizeof(LogAttributes), 0, _LOG_SOURCE_INFO }\<close>: the member \<^verbatim>\<open>time\<close> has
  no initializer of its own, so C sets it to zero.
\<close>

definition LogAttributes_initializer :: "build \<Rightarrow> source_location \<Rightarrow> LogAttributes" where
  "LogAttributes_initializer b loc =
     (case LOG_SOURCE_INFO b loc of
        (f, n, fn) \<Rightarrow>
          \<lparr>attr_size = sizeof_LogAttributes b, attr_flags = 0, attr_file = f, attr_line = n,
           attr_function = fn, attr_time = 0\<rparr>)"

subsection \<open>The functions the header declares (lines 168 to 200)\<close>

text \<open>
  The macros call functions whose bodies are not in the header. They are the fields of a
  record, so that a statement about a macro holds for every implementation of them. Each
  takes the program state \<open>'st\<close> and returns it updated; \<^verbatim>\<open>log_init_attr\<close> is given the
  attributes by a pointer that is not \<^verbatim>\<open>const\<close> and returns them too; \<^verbatim>\<open>log_enabled\<close> returns
  its \<^verbatim>\<open>int\<close>. \<open>'args\<close> is the list of variadic arguments. \<^verbatim>\<open>panic_\<close> may not return: its
  outcome says which, with the state in which control was left.
\<close>

datatype 'st outcome = Returns 'st | Never_returns 'st

record ('st, 'args) api =
  ext_log_init_attr :: "LogAttributes \<Rightarrow> voidptr \<Rightarrow> 'st \<Rightarrow> LogAttributes \<times> 'st"
  ext_log_message ::
    "int \<Rightarrow> cstr \<Rightarrow> LogAttributes \<Rightarrow> voidptr \<Rightarrow> string \<Rightarrow> 'args \<Rightarrow> 'st \<Rightarrow> 'st"
  ext_log_write :: "int \<Rightarrow> cstr \<Rightarrow> string \<Rightarrow> nat \<Rightarrow> voidptr \<Rightarrow> 'st \<Rightarrow> 'st"
  ext_log_printf :: "int \<Rightarrow> cstr \<Rightarrow> voidptr \<Rightarrow> string \<Rightarrow> 'args \<Rightarrow> 'st \<Rightarrow> 'st"
  ext_log_dump :: "int \<Rightarrow> cstr \<Rightarrow> byte list \<Rightarrow> nat \<Rightarrow> int \<Rightarrow> voidptr \<Rightarrow> 'st \<Rightarrow> 'st"
  ext_log_enabled :: "int \<Rightarrow> cstr \<Rightarrow> voidptr \<Rightarrow> 'st \<Rightarrow> int \<times> 'st"
  ext_HAL_Delay_Microseconds :: "32 word \<Rightarrow> 'st \<Rightarrow> 'st"
  ext_panic :: "int \<Rightarrow> voidptr \<Rightarrow> (32 word \<Rightarrow> 'st \<Rightarrow> 'st) \<Rightarrow> 'st \<Rightarrow> 'st outcome"

text \<open>
  \<^verbatim>\<open>_LOG_INIT_ATTR(_name)\<close>: the declaration with its initializer, then
  \<^verbatim>\<open>log_init_attr(&_name, NULL)\<close>. (An Isabelle name cannot start with an underscore.)
\<close>

definition LOG_INIT_ATTR ::
  "build \<Rightarrow> ('st, 'args) api \<Rightarrow> source_location \<Rightarrow> 'st \<Rightarrow> LogAttributes \<times> 'st" where
  "LOG_INIT_ATTR b api loc s = ext_log_init_attr api (LogAttributes_initializer b loc) None s"

subsection \<open>The wrapper macros (lines 290 to 329, 339 to 356)\<close>

text \<open>
  The argument \<open>level\<close> is the enumerator \<^verbatim>\<open>LOG_LEVEL_##_level\<close> that the macro pastes
  together. With \<^verbatim>\<open>LOG_DISABLE\<close> defined every macro expands to nothing, and
  \<^verbatim>\<open>LOG_ENABLED_C\<close> to \<^verbatim>\<open>(0)\<close>. \<^verbatim>\<open>LOG_PRINT_C\<close> passes \<^verbatim>\<open>strlen(_s)\<close>, the length of the C string.
\<close>

definition LOG_C ::
  "build \<Rightarrow> ('st, 'args) api \<Rightarrow> source_location \<Rightarrow> LogLevel \<Rightarrow> cstr \<Rightarrow> string \<Rightarrow> 'args
     \<Rightarrow> 'st \<Rightarrow> 'st" where
  "LOG_C b api loc level category fmt args s =
     (if def_LOG_DISABLE b then s
      else if LogLevel_value level \<ge> LOG_COMPILE_TIME_LEVEL b then
        (case LOG_INIT_ATTR b api loc s of
           (attr, s') \<Rightarrow>
             ext_log_message api (LogLevel_value level) category attr None fmt args s')
      else s)"

definition LOG_WRITE_C ::
  "build \<Rightarrow> ('st, 'args) api \<Rightarrow> LogLevel \<Rightarrow> cstr \<Rightarrow> string \<Rightarrow> nat \<Rightarrow> 'st \<Rightarrow> 'st" where
  "LOG_WRITE_C b api level category data sz s =
     (if def_LOG_DISABLE b then s
      else if LogLevel_value level \<ge> LOG_COMPILE_TIME_LEVEL b then
        ext_log_write api (LogLevel_value level) category data sz None s
      else s)"

definition LOG_PRINT_C ::
  "build \<Rightarrow> ('st, 'args) api \<Rightarrow> LogLevel \<Rightarrow> cstr \<Rightarrow> string \<Rightarrow> 'st \<Rightarrow> 'st" where
  "LOG_PRINT_C b api level category str s =
     (if def_LOG_DISABLE b then s
      else if LogLevel_value level \<ge> LOG_COMPILE_TIME_LEVEL b then
        ext_log_write api (LogLevel_value level) category str (length str) None s
      else s)"

definition LOG_PRINTF_C ::
  "build \<Rightarrow> ('st, 'args) api \<Rightarrow> LogLevel \<Rightarrow> cstr \<Rightarrow> string \<Rightarrow> 'args \<Rightarrow> 'st \<Rightarrow> 'st" where
  "LOG_PRINTF_C b api level category fmt args s =
     (if def_LOG_DISABLE b then s
      else if LogLevel_value level \<ge> LOG_COMPILE_TIME_LEVEL b then
        ext_log_printf api (LogLevel_value level) category None fmt args s
      else s)"

definition LOG_DUMP_C ::
  "build \<Rightarrow> ('st, 'args) api \<Rightarrow> LogLevel \<Rightarrow> cstr \<Rightarrow> byte list \<Rightarrow> nat \<Rightarrow> 'st \<Rightarrow> 'st" where
  "LOG_DUMP_C b api level category data sz s =
     (if def_LOG_DISABLE b then s
      else if LogLevel_value level \<ge> LOG_COMPILE_TIME_LEVEL b then
        ext_log_dump api (LogLevel_value level) category data sz 0 None s
      else s)"

text \<open>
  \<^verbatim>\<open>LOG_ENABLED_C\<close> is a C conjunction: its value is 0 or 1, and \<^verbatim>\<open>log_enabled\<close> is called only
  when the comparison with the floor holds.
\<close>

definition LOG_ENABLED_C ::
  "build \<Rightarrow> ('st, 'args) api \<Rightarrow> LogLevel \<Rightarrow> cstr \<Rightarrow> 'st \<Rightarrow> int \<times> 'st" where
  "LOG_ENABLED_C b api level category s =
     (if def_LOG_DISABLE b then (0, s)
      else if LogLevel_value level \<ge> LOG_COMPILE_TIME_LEVEL b then
        (case ext_log_enabled api (LogLevel_value level) category None s of
           (r, s') \<Rightarrow> (if r \<noteq> 0 then 1 else 0, s'))
      else (0, s))"

subsection \<open>The category macros of the C variant (lines 254 to 277, 341 to 343)\<close>

text \<open>
  \<^verbatim>\<open>_log_source_category\<close> is a weak reference to \<^verbatim>\<open>_log_source_category_impl\<close>. It is null
  unless the translation unit defines that function, which \<^verbatim>\<open>LOG_SOURCE_CATEGORY(_name)\<close>
  does; calling it then returns \<^verbatim>\<open>_name\<close>. A translation unit is modelled by what the
  function returns, when it has one.
\<close>

record translation_unit =
  log_source_category_impl :: "cstr option"

text \<open>
  \<^verbatim>\<open>LOG_THIS_CATEGORY()\<close> is the expression
  \<^verbatim>\<open>(_log_category ? _log_category : (_log_source_category ? _log_source_category() : LOG_MODULE_CATEGORY))\<close>.
  Its argument \<open>log_category\<close> is the value of the constant that the identifier
  \<^verbatim>\<open>_log_category\<close> denotes where the expression stands. With \<^verbatim>\<open>LOG_DISABLE\<close> the macro is
  \<^verbatim>\<open>NULL\<close>.
\<close>

definition LOG_THIS_CATEGORY :: "build \<Rightarrow> translation_unit \<Rightarrow> cstr \<Rightarrow> cstr" where
  "LOG_THIS_CATEGORY b tu log_category =
     (if def_LOG_DISABLE b then None
      else (case log_category of
              Some c \<Rightarrow> Some c
            | None \<Rightarrow>
                (case log_source_category_impl tu of
                   Some name \<Rightarrow> name
                 | None \<Rightarrow> LOG_MODULE_CATEGORY b)))"

text \<open>
  Which constant \<^verbatim>\<open>_log_category\<close> denotes is decided by the scopes of C. The header
  declares a dummy \<^verbatim>\<open>static const char* const _log_category = NULL\<close> at file scope, and
  \<^verbatim>\<open>LOG_CATEGORY(_name)\<close> declares \<^verbatim>\<open>static const char* const _log_category = _name\<close> in the
  block where it stands. A declaration is visible from its place to the end of its block,
  nested blocks included, and hides the declaration of an enclosing scope. A block-scope
  \<^verbatim>\<open>static\<close> object has no linkage, so a second declaration of it in the same block is a
  constraint violation (C11 6.7 paragraph 3): the translation unit does not compile.

  The body of a block is a list of items: a \<^verbatim>\<open>LOG_CATEGORY\<close> declaration, a place where
  \<^verbatim>\<open>LOG_THIS_CATEGORY()\<close> is evaluated, or a nested block. \<open>categories\<close> walks a body in
  textual order with the value of the visible \<^verbatim>\<open>_log_category\<close> and whether the block
  walked has declared its own; it returns the category of every call site, in textual
  order, or the compile error. With \<^verbatim>\<open>LOG_DISABLE\<close>, \<^verbatim>\<open>LOG_CATEGORY\<close> expands to nothing.
\<close>

datatype compile_error = Redefinition

datatype item = LOG_CATEGORY cstr | Call_site | Block "item list"

fun categories ::
  "build \<Rightarrow> translation_unit \<Rightarrow> cstr \<Rightarrow> bool \<Rightarrow> item list \<Rightarrow> compile_error + cstr list" where
  "categories b tu visible declared [] = Inr []"
| "categories b tu visible declared (LOG_CATEGORY name # rest) =
     (if def_LOG_DISABLE b then categories b tu visible declared rest
      else if declared then Inl Redefinition
      else categories b tu name True rest)"
| "categories b tu visible declared (Call_site # rest) =
     (case categories b tu visible declared rest of
        Inl e \<Rightarrow> Inl e
      | Inr cs \<Rightarrow> Inr (LOG_THIS_CATEGORY b tu visible # cs))"
| "categories b tu visible declared (Block body # rest) =
     (case categories b tu visible False body of
        Inl e \<Rightarrow> Inl e
      | Inr cs \<Rightarrow>
          (case categories b tu visible declared rest of
             Inl e \<Rightarrow> Inl e
           | Inr cs' \<Rightarrow> Inr (cs @ cs')))"

text \<open>
  A function body starts with the file-scope dummy visible and no declaration of its own.
\<close>

definition function_body_categories ::
  "build \<Rightarrow> translation_unit \<Rightarrow> item list \<Rightarrow> compile_error + cstr list" where
  "function_body_categories b tu body = categories b tu None False body"

text \<open>The number of call sites of a body, and two properties of a body's declarations.\<close>

fun call_sites :: "item list \<Rightarrow> nat" where
  "call_sites [] = 0"
| "call_sites (LOG_CATEGORY name # rest) = call_sites rest"
| "call_sites (Call_site # rest) = Suc (call_sites rest)"
| "call_sites (Block body # rest) = call_sites body + call_sites rest"

fun once_per_block :: "bool \<Rightarrow> item list \<Rightarrow> bool" where
  "once_per_block declared [] = True"
| "once_per_block declared (LOG_CATEGORY name # rest) =
     (\<not> declared \<and> once_per_block True rest)"
| "once_per_block declared (Call_site # rest) = once_per_block declared rest"
| "once_per_block declared (Block body # rest) =
     (once_per_block False body \<and> once_per_block declared rest)"

fun names_not_null :: "item list \<Rightarrow> bool" where
  "names_not_null [] = True"
| "names_not_null (LOG_CATEGORY name # rest) = (name \<noteq> None \<and> names_not_null rest)"
| "names_not_null (Call_site # rest) = names_not_null rest"
| "names_not_null (Block body # rest) = (names_not_null body \<and> names_not_null rest)"

text \<open>
  The resolution as the specification words it, for comparison with \<open>categories\<close>: the
  category declared for the enclosing scope if there is one, else the one declared for the
  source file if there is one, else the module's if it is defined, else \<^verbatim>\<open>NULL\<close>; a scope's
  declaration is not seen by sibling scopes, and a second declaration in a scope replaces
  the first. \<open>scoped\<close> is the category declared for the scope, when there is one.
\<close>

definition spec_category :: "build \<Rightarrow> translation_unit \<Rightarrow> cstr option \<Rightarrow> cstr" where
  "spec_category b tu scoped =
     (case scoped of
        Some c \<Rightarrow> c
      | None \<Rightarrow>
          (case log_source_category_impl tu of
             Some name \<Rightarrow> name
           | None \<Rightarrow> (case def_LOG_MODULE_CATEGORY b of Some m \<Rightarrow> m | None \<Rightarrow> None)))"

fun spec_categories :: "build \<Rightarrow> translation_unit \<Rightarrow> cstr option \<Rightarrow> item list \<Rightarrow> cstr list" where
  "spec_categories b tu scoped [] = []"
| "spec_categories b tu scoped (LOG_CATEGORY name # rest) =
     spec_categories b tu (Some name) rest"
| "spec_categories b tu scoped (Call_site # rest) =
     spec_category b tu scoped # spec_categories b tu scoped rest"
| "spec_categories b tu scoped (Block body # rest) =
     spec_categories b tu scoped body @ spec_categories b tu scoped rest"

subsection \<open>\<^verbatim>\<open>LOG\<close> and \<^verbatim>\<open>PANIC\<close> (lines 332, 345, 384 to 388)\<close>

text \<open>
  \<^verbatim>\<open>LOG(_level, _fmt, ...)\<close> is \<^verbatim>\<open>LOG_C(_level, LOG_THIS_CATEGORY(), _fmt, ...)\<close>. \<^verbatim>\<open>PANIC\<close> is
  defined outside the \<^verbatim>\<open>LOG_DISABLE\<close> conditional: \<^verbatim>\<open>LOG(PANIC, ...)\<close>, then
  \<^verbatim>\<open>panic_(_code, NULL, HAL_Delay_Microseconds)\<close>.
\<close>

definition LOG ::
  "build \<Rightarrow> ('st, 'args) api \<Rightarrow> translation_unit \<Rightarrow> source_location \<Rightarrow> cstr \<Rightarrow> LogLevel
     \<Rightarrow> string \<Rightarrow> 'args \<Rightarrow> 'st \<Rightarrow> 'st" where
  "LOG b api tu loc log_category level fmt args s =
     LOG_C b api loc level (LOG_THIS_CATEGORY b tu log_category) fmt args s"

definition PANIC ::
  "build \<Rightarrow> ('st, 'args) api \<Rightarrow> translation_unit \<Rightarrow> source_location \<Rightarrow> cstr \<Rightarrow> int
     \<Rightarrow> string \<Rightarrow> 'args \<Rightarrow> 'st \<Rightarrow> 'st outcome" where
  "PANIC b api tu loc log_category code fmt args s =
     ext_panic api code None (ext_HAL_Delay_Microseconds api)
       (LOG b api tu loc log_category LOG_LEVEL_PANIC fmt args s)"

definition returns :: "'st outcome \<Rightarrow> bool" where
  "returns out = (case out of Returns s \<Rightarrow> True | Never_returns s \<Rightarrow> False)"

subsection \<open>An implementation that records its calls\<close>

text \<open>
  One implementation of the declared functions, for observing what a macro calls and in
  which order: the state is the list of the calls made so far, oldest first.
  \<^verbatim>\<open>log_init_attr\<close> leaves the attributes as they are, \<^verbatim>\<open>log_enabled\<close> answers 1, and
  \<^verbatim>\<open>panic_\<close> does not return.
\<close>

datatype 'args call =
    Call_log_init_attr LogAttributes voidptr
  | Call_log_message int cstr LogAttributes voidptr string 'args
  | Call_log_write int cstr string nat voidptr
  | Call_log_printf int cstr voidptr string 'args
  | Call_log_dump int cstr "byte list" nat int voidptr
  | Call_log_enabled int cstr voidptr
  | Call_HAL_Delay_Microseconds "32 word"
  | Call_panic int voidptr

definition recording_api :: "('args call list, 'args) api" where
  "recording_api =
     \<lparr>ext_log_init_attr = (\<lambda>attr r s. (attr, s @ [Call_log_init_attr attr r])),
      ext_log_message = (\<lambda>level c attr r fmt args s. s @ [Call_log_message level c attr r fmt args]),
      ext_log_write = (\<lambda>level c data sz r s. s @ [Call_log_write level c data sz r]),
      ext_log_printf = (\<lambda>level c r fmt args s. s @ [Call_log_printf level c r fmt args]),
      ext_log_dump = (\<lambda>level c data sz flags r s. s @ [Call_log_dump level c data sz flags r]),
      ext_log_enabled = (\<lambda>level c r s. (1, s @ [Call_log_enabled level c r])),
      ext_HAL_Delay_Microseconds = (\<lambda>d s. s @ [Call_HAL_Delay_Microseconds d]),
      ext_panic = (\<lambda>code r hal s. Never_returns (s @ [Call_panic code r]))\<rparr>"

text \<open>
  The build in which no configuration macro is defined, for a target on which
  \<^verbatim>\<open>sizeof(LogAttributes)\<close> is \<open>n\<close>.
\<close>

definition default_build :: "nat \<Rightarrow> build" where
  "default_build n =
     \<lparr>def_LOG_COMPILE_TIME_LEVEL = None, def_LOG_MAX_STRING_LENGTH = None,
      def_LOG_MODULE_CATEGORY = None, def_LOG_INCLUDE_SOURCE_INFO = False,
      def_LOG_DISABLE = False, sizeof_LogAttributes = n\<rparr>"

section \<open>The functions behind the header, from the specification\<close>

text \<open>
  The bodies of \<^verbatim>\<open>log_set_callbacks\<close>, \<^verbatim>\<open>log_enabled\<close>, \<^verbatim>\<open>log_message\<close>, \<^verbatim>\<open>log_write\<close> and
  \<^verbatim>\<open>log_dump\<close> are in no file of the sources. The definitions of this section follow the
  specification's description of them. The types of the three callbacks are the header's
  (lines 158 to 166); a callback works on the state \<open>'b\<close> of the backend it belongs to.
\<close>

type_synonym 'b log_message_callback_type =
  "string \<Rightarrow> int \<Rightarrow> cstr \<Rightarrow> LogAttributes \<Rightarrow> voidptr \<Rightarrow> 'b \<Rightarrow> 'b"

type_synonym 'b log_write_callback_type =
  "string \<Rightarrow> nat \<Rightarrow> int \<Rightarrow> cstr \<Rightarrow> voidptr \<Rightarrow> 'b \<Rightarrow> 'b"

type_synonym 'b log_enabled_callback_type =
  "int \<Rightarrow> cstr \<Rightarrow> voidptr \<Rightarrow> 'b \<Rightarrow> int \<times> 'b"

text \<open>
  Modelled from the spec: the backend registration, whose declaration is missing from the
  sources. "A process-wide singleton holding three optional callback references
  (message-callback, write-callback, enabled-predicate) plus one opaque reserved pointer
  shared by all three", "unset at startup".
\<close>

record 'b registration =
  log_msg_callback :: "'b log_message_callback_type option"
  log_write_callback :: "'b log_write_callback_type option"
  log_enabled_callback :: "'b log_enabled_callback_type option"
  reserved_context :: voidptr
  backend :: 'b

text \<open>
  Modelled from the spec: the registration at startup, when nothing has been registered:
  "unset at startup".
\<close>

definition unset_registration :: "'b \<Rightarrow> 'b registration" where
  "unset_registration bk =
     \<lparr>log_msg_callback = None, log_write_callback = None, log_enabled_callback = None,
      reserved_context = None, backend = bk\<rparr>"

text \<open>
  Modelled from the spec: the body of \<^verbatim>\<open>log_set_callbacks\<close>, missing from the sources.
  "Replaces all three references and the shared context."
\<close>

definition log_set_callbacks ::
  "'b log_message_callback_type option \<Rightarrow> 'b log_write_callback_type option
     \<Rightarrow> 'b log_enabled_callback_type option \<Rightarrow> voidptr \<Rightarrow> 'b registration
     \<Rightarrow> 'b registration" where
  "log_set_callbacks log_msg log_wr log_en reserved st =
     st\<lparr>log_msg_callback := log_msg, log_write_callback := log_wr,
        log_enabled_callback := log_en, reserved_context := reserved\<rparr>"

text \<open>
  Modelled from the spec: the body of \<^verbatim>\<open>log_enabled\<close>, missing from the sources. It
  "delegates to the registered enabled-predicate callback with (level, category,
  reservedContext). If no predicate is registered, default to enabled."
\<close>

definition log_enabled ::
  "int \<Rightarrow> cstr \<Rightarrow> voidptr \<Rightarrow> 'b registration \<Rightarrow> int \<times> 'b registration" where
  "log_enabled level category reserved st =
     (case log_enabled_callback st of
        None \<Rightarrow> (1, st)
      | Some p \<Rightarrow>
          (case p level category (reserved_context st) (backend st) of
             (r, bk) \<Rightarrow> (r, st\<lparr>backend := bk\<rparr>)))"

text \<open>
  Modelled from the spec: the bounded buffer of \<^verbatim>\<open>log_message\<close>, whose body is missing from
  the sources. \<open>bounded_buffer n text\<close> is the content of a buffer of \<open>n\<close> bytes after \<open>text\<close>
  has been rendered into it: "maxLength characters including the implicit terminator",
  "truncates silently on overflow". A buffer of no bytes holds nothing.
\<close>

definition bounded_buffer :: "nat \<Rightarrow> string \<Rightarrow> string" where
  "bounded_buffer n text = (if n = 0 then [] else take (n - 1) text @ [CHR 0x00])"

text \<open>
  Modelled from the spec: what the message callback, which the sources do not hold, reads
  from the buffer it is handed, a "null-terminated" string: the characters before the
  first null character.
\<close>

definition c_string :: "string \<Rightarrow> string" where
  "c_string buf = takeWhile (\<lambda>c. c \<noteq> CHR 0x00) buf"

text \<open>
  Modelled from the spec: the body of \<^verbatim>\<open>log_message\<close>, missing from the sources. It
  "renders into a bounded buffer (maxLength, default 160 characters including the implicit
  terminator), truncates silently on overflow, and forwards the
  level/category/attributes/reserved-context plus rendered text to the message callback.
  If no message callback is registered, this call is a no-op." The callback is "invoked
  with a fully rendered, null-terminated, truncated-as-needed string".

  \<open>render\<close> is the formatting of the C library: the text that the format and its arguments
  stand for, of any length.
\<close>

definition log_message ::
  "build \<Rightarrow> (string \<Rightarrow> 'args \<Rightarrow> string) \<Rightarrow> int \<Rightarrow> cstr \<Rightarrow> LogAttributes \<Rightarrow> voidptr \<Rightarrow> string
     \<Rightarrow> 'args \<Rightarrow> 'b registration \<Rightarrow> 'b registration" where
  "log_message b render level category attr reserved fmt args st =
     (case log_msg_callback st of
        None \<Rightarrow> st
      | Some cb \<Rightarrow>
          st\<lparr>backend :=
               cb (c_string (bounded_buffer (LOG_MAX_STRING_LENGTH b) (render fmt args)))
                 level category attr (reserved_context st) (backend st)\<rparr>)"

text \<open>
  Modelled from the spec: the body of \<^verbatim>\<open>log_write\<close>, missing from the sources. It "forwards
  a caller-supplied byte buffer directly to the write callback, bypassing formatting
  entirely", and does nothing if the callback is unset.
\<close>

definition log_write ::
  "int \<Rightarrow> cstr \<Rightarrow> string \<Rightarrow> nat \<Rightarrow> voidptr \<Rightarrow> 'b registration \<Rightarrow> 'b registration" where
  "log_write level category data sz reserved st =
     (case log_write_callback st of
        None \<Rightarrow> st
      | Some cb \<Rightarrow>
          st\<lparr>backend := cb data sz level category (reserved_context st) (backend st)\<rparr>)"

text \<open>
  Modelled from the spec: the encoding of \<^verbatim>\<open>log_dump\<close>, whose body is missing from the
  sources: "lowercase hexadecimal (two characters per byte, no separators)". The high
  half of a byte comes first.
\<close>

definition hex_digit :: "nat \<Rightarrow> char" where
  "hex_digit n = ''0123456789abcdef'' ! n"

definition hex_byte :: "byte \<Rightarrow> string" where
  "hex_byte x = [hex_digit (unat x div 16), hex_digit (unat x mod 16)]"

definition hex_encode :: "byte list \<Rightarrow> string" where
  "hex_encode bs = concat (map hex_byte bs)"

text \<open>
  Modelled from the spec: the "bounded buffer" of \<^verbatim>\<open>log_dump\<close>, whose body is missing from
  the sources. The specification gives the buffer no size: its size \<open>n\<close> is a parameter, and
  a text is forwarded one full buffer after the other, the rest in the last.
\<close>

fun chunks :: "nat \<Rightarrow> 'a list \<Rightarrow> 'a list list" where
  "chunks n xs = (if n = 0 \<or> xs = [] then [] else take n xs # chunks n (drop n xs))"

declare chunks.simps [simp del]

text \<open>
  Modelled from the spec: the buffers that \<^verbatim>\<open>log_dump\<close>, whose body is missing from the
  sources, forwards for the data at an address and a declared size. \<open>data\<close> is the memory
  from the address on; only its first \<open>sz\<close> bytes are read.
\<close>

definition dump_writes :: "nat \<Rightarrow> byte list \<Rightarrow> nat \<Rightarrow> string list" where
  "dump_writes bound data sz = chunks bound (hex_encode (take sz data))"

text \<open>
  Modelled from the spec: the body of \<^verbatim>\<open>log_dump\<close>, missing from the sources. It "encodes
  an arbitrary byte buffer as lowercase hexadecimal (two characters per byte, no
  separators unless a flag requests them) into a bounded buffer, then forwards via the
  write callback. Must handle zero-length input (emits nothing) and must never read past
  the declared size." The specification names no flag: the model is of a call with no flag
  set, which is what \<^verbatim>\<open>LOG_DUMP_C\<close> passes (line 324).
\<close>

definition log_dump ::
  "nat \<Rightarrow> int \<Rightarrow> cstr \<Rightarrow> byte list \<Rightarrow> nat \<Rightarrow> voidptr \<Rightarrow> 'b registration \<Rightarrow> 'b registration" where
  "log_dump bound level category data sz reserved st =
     (case log_write_callback st of
        None \<Rightarrow> st
      | Some cb \<Rightarrow>
          st\<lparr>backend :=
               fold (\<lambda>w bk. cb w (length w) level category (reserved_context st) bk)
                 (dump_writes bound data sz) (backend st)\<rparr>)"

text \<open>
  Modelled from the spec: the decoding that the round trip of the dump is stated with,
  which no file of the sources holds: two hexadecimal digits to a byte, the high half
  first; a text of odd length or with another character has no decoding.
\<close>

definition hex_value :: "char \<Rightarrow> nat option" where
  "hex_value c =
     (let k = (of_char c :: nat) in
      if 48 \<le> k \<and> k \<le> 57 then Some (k - 48)
      else if 97 \<le> k \<and> k \<le> 102 then Some (k - 87)
      else None)"

fun hex_decode :: "string \<Rightarrow> byte list option" where
  "hex_decode [] = Some []"
| "hex_decode [c] = None"
| "hex_decode (c # d # rest) =
     (case (hex_value c, hex_value d, hex_decode rest) of
        (Some h, Some l, Some bs) \<Rightarrow> Some (of_nat (16 * h + l) # bs)
      | _ \<Rightarrow> None)"

text \<open>
  Modelled from the spec: the body of \<^verbatim>\<open>panic_\<close>, which \<^verbatim>\<open>panic.h\<close> declares and no file of
  the sources holds: the fatal-path hook. \<^verbatim>\<open>PANIC\<close> "unconditionally hands control to this
  hook with an error code", and "it never returns". What the hook does with the state before
  control is lost (the specification calls it a delay/halt primitive) is the parameter
  \<open>halt\<close>, which is given the hook's three arguments. (An Isabelle name cannot end with an
  underscore.)
\<close>

definition panic ::
  "(int \<Rightarrow> voidptr \<Rightarrow> (32 word \<Rightarrow> 'st \<Rightarrow> 'st) \<Rightarrow> 'st \<Rightarrow> 'st) \<Rightarrow> int \<Rightarrow> voidptr
     \<Rightarrow> (32 word \<Rightarrow> 'st \<Rightarrow> 'st) \<Rightarrow> 'st \<Rightarrow> 'st outcome" where
  "panic halt code extra delay s = Never_returns (halt code extra delay s)"

text \<open>A backend that keeps what its callbacks are given, oldest first.\<close>

datatype received =
    Message string int cstr LogAttributes voidptr
  | Written string nat int cstr voidptr
  | Asked int cstr voidptr

definition keep_message :: "received list log_message_callback_type" where
  "keep_message msg level category attr reserved bk =
     bk @ [Message msg level category attr reserved]"

definition keep_written :: "received list log_write_callback_type" where
  "keep_written data sz level category reserved bk =
     bk @ [Written data sz level category reserved]"

definition answer :: "int \<Rightarrow> received list log_enabled_callback_type" where
  "answer r level category reserved bk = (r, bk @ [Asked level category reserved])"

text \<open>
  An implementation of the declared functions that does nothing: every function returns
  the state as it is, \<^verbatim>\<open>log_enabled\<close> answers 1 and \<^verbatim>\<open>panic_\<close> does not return. It is a
  starting point for implementations that provide some of the functions.
\<close>

definition stub_api :: "('st, 'args) api" where
  "stub_api =
     \<lparr>ext_log_init_attr = (\<lambda>attr r s. (attr, s)),
      ext_log_message = (\<lambda>level c attr r fmt args s. s),
      ext_log_write = (\<lambda>level c data sz r s. s),
      ext_log_printf = (\<lambda>level c r fmt args s. s),
      ext_log_dump = (\<lambda>level c data sz flags r s. s),
      ext_log_enabled = (\<lambda>level c r s. (1, s)),
      ext_HAL_Delay_Microseconds = (\<lambda>d s. s),
      ext_panic = (\<lambda>code r hal s. Never_returns s)\<rparr>"

section \<open>Properties of the category macros\<close>

lemma compile_error_eq: "(e :: compile_error) = Redefinition"
  by (cases e)

lemma categories_length:
  "categories b tu visible declared items = Inr cs \<Longrightarrow> length cs = call_sites items"
  by (induction b tu visible declared items arbitrary: cs rule: categories.induct)
     (auto split: if_splits sum.splits)

lemma categories_redefinition:
  "\<not> def_LOG_DISABLE b \<Longrightarrow> \<not> once_per_block declared items
     \<Longrightarrow> categories b tu visible declared items = Inl Redefinition"
  by (induction b tu visible declared items rule: categories.induct)
     (auto split: sum.splits simp: compile_error_eq)

lemma LOG_THIS_CATEGORY_spec_category:
  "\<not> def_LOG_DISABLE b \<Longrightarrow> visible = (case scoped of None \<Rightarrow> None | Some name \<Rightarrow> name)
     \<Longrightarrow> (\<forall>name. scoped = Some name \<longrightarrow> name \<noteq> None)
     \<Longrightarrow> LOG_THIS_CATEGORY b tu visible = spec_category b tu scoped"
  by (auto simp: LOG_THIS_CATEGORY_def spec_category_def LOG_MODULE_CATEGORY_def
           split: option.splits)

lemma categories_spec_categories:
  "\<not> def_LOG_DISABLE b \<Longrightarrow> once_per_block declared items \<Longrightarrow> names_not_null items
     \<Longrightarrow> visible = (case scoped of None \<Rightarrow> None | Some name \<Rightarrow> name)
     \<Longrightarrow> (\<forall>name. scoped = Some name \<longrightarrow> name \<noteq> None)
     \<Longrightarrow> categories b tu visible declared items = Inr (spec_categories b tu scoped items)"
proof (induction b tu visible declared items arbitrary: scoped rule: categories.induct)
  case (1 b tu visible declared)
  show ?case by simp
next
  case (2 b tu visible declared name rest)
  from "2.prems"
  have "categories b tu name True rest = Inr (spec_categories b tu (Some name) rest)"
    by (intro "2.IH"(2)) auto
  with "2.prems" show ?case by simp
next
  case (3 b tu visible declared rest)
  from "3.prems"
  have "categories b tu visible declared rest = Inr (spec_categories b tu scoped rest)"
    by (intro "3.IH") auto
  moreover from "3.prems" have "LOG_THIS_CATEGORY b tu visible = spec_category b tu scoped"
    by (intro LOG_THIS_CATEGORY_spec_category) auto
  ultimately show ?case by simp
next
  case (4 b tu visible declared body rest)
  from "4.prems"
  have body: "categories b tu visible False body = Inr (spec_categories b tu scoped body)"
    by (intro "4.IH"(1)) auto
  from "4.prems" body
  have "categories b tu visible declared rest = Inr (spec_categories b tu scoped rest)"
    by (intro "4.IH"(2)) auto
  with body show ?case by simp
qed

lemma categories_without_block:
  "categories b tu visible declared (pre @ Block blk # post) = Inr cs
     \<Longrightarrow> categories b tu visible declared (pre @ post)
         = Inr (take (call_sites pre) cs @ drop (call_sites pre + call_sites blk) cs)"
proof (induction pre arbitrary: visible declared cs)
  case Nil
  then obtain cs1 cs2 where "categories b tu visible False blk = Inr cs1"
    and rest: "categories b tu visible declared post = Inr cs2" and cs: "cs = cs1 @ cs2"
    by (auto split: sum.splits)
  then have "length cs1 = call_sites blk" by (simp add: categories_length)
  with rest cs show ?case by simp
next
  case (Cons x pre)
  show ?case
  proof (cases x)
    case (LOG_CATEGORY name)
    with Cons.prems Cons.IH show ?thesis
      by (auto split: if_splits)
  next
    case Call_site
    with Cons.prems obtain cs' where
      "categories b tu visible declared (pre @ Block blk # post) = Inr cs'"
      and "cs = LOG_THIS_CATEGORY b tu visible # cs'"
      by (auto split: sum.splits)
    with Call_site Cons.IH [of visible declared cs'] show ?thesis by simp
  next
    case (Block body)
    with Cons.prems obtain cs1 cs2 where body: "categories b tu visible False body = Inr cs1"
      and rest: "categories b tu visible declared (pre @ Block blk # post) = Inr cs2"
      and cs: "cs = cs1 @ cs2"
      by (auto split: sum.splits)
    from body have len: "length cs1 = call_sites body" by (simp add: categories_length)
    from rest have "categories b tu visible declared (pre @ post)
        = Inr (take (call_sites pre) cs2 @ drop (call_sites pre + call_sites blk) cs2)"
      by (rule Cons.IH)
    with Block body cs len show ?thesis by (simp add: add.assoc)
  qed
qed

text \<open>
  C1. In a build without \<^verbatim>\<open>LOG_DISABLE\<close>, for a function body whose \<^verbatim>\<open>LOG_CATEGORY\<close>
  declarations name categories that are not \<^verbatim>\<open>NULL\<close>: if no block of the body holds two
  declarations, the body compiles and every call site resolves to the category the
  specification's chain gives (the category declared for the innermost enclosing scope
  that has declared one before the call site, else the source file's if it has one, else
  the module's, which is \<^verbatim>\<open>NULL\<close> when it is not defined); if some block holds two
  declarations, the body does not compile. The chain is the header's expression: the
  visible \<^verbatim>\<open>_log_category\<close> when it is not \<^verbatim>\<open>NULL\<close>, else what \<^verbatim>\<open>_log_source_category()\<close>
  returns when the function is defined, else \<^verbatim>\<open>LOG_MODULE_CATEGORY\<close>. A body that compiles has one category for each
  call site. Taking a block away from anywhere, with all it declares, leaves the
  categories of all call sites outside it as they were: a declaration is not seen by
  sibling scopes.
\<close>

theorem LOG_THIS_CATEGORY_resolution:
  assumes "\<not> def_LOG_DISABLE b" and "names_not_null body"
  shows "function_body_categories b tu body
           = (if once_per_block False body then Inr (spec_categories b tu None body)
              else Inl Redefinition)
         \<and> (\<forall>cs. function_body_categories b tu body = Inr cs \<longrightarrow> length cs = call_sites body)
         \<and> (\<forall>visible declared pre blk post cs.
               categories b tu visible declared (pre @ Block blk # post) = Inr cs
               \<longrightarrow> categories b tu visible declared (pre @ post)
                     = Inr (take (call_sites pre) cs
                            @ drop (call_sites pre + call_sites blk) cs))
         \<and> LOG_THIS_CATEGORY b tu (Some c) = Some c
         \<and> LOG_THIS_CATEGORY b tu None
             = (case log_source_category_impl tu of
                  Some name \<Rightarrow> name
                | None \<Rightarrow> LOG_MODULE_CATEGORY b)
         \<and> (def_LOG_MODULE_CATEGORY b = None \<longrightarrow> LOG_MODULE_CATEGORY b = None)"
proof (intro conjI allI impI)
  show "function_body_categories b tu body
           = (if once_per_block False body then Inr (spec_categories b tu None body)
              else Inl Redefinition)"
  proof (cases "once_per_block False body")
    case True
    with assms have "categories b tu None False body = Inr (spec_categories b tu None body)"
      by (intro categories_spec_categories) auto
    with True show ?thesis by (simp add: function_body_categories_def)
  next
    case False
    with assms show ?thesis
      by (simp add: function_body_categories_def categories_redefinition)
  qed
next
  fix cs
  assume "function_body_categories b tu body = Inr cs"
  then show "length cs = call_sites body"
    by (simp add: function_body_categories_def categories_length)
next
  fix visible declared pre blk post cs
  assume "categories b tu visible declared (pre @ Block blk # post) = Inr cs"
  then show "categories b tu visible declared (pre @ post)
      = Inr (take (call_sites pre) cs @ drop (call_sites pre + call_sites blk) cs)"
    by (rule categories_without_block)
next
  from assms(1) show "LOG_THIS_CATEGORY b tu (Some c) = Some c"
    by (simp add: LOG_THIS_CATEGORY_def)
next
  from assms(1) show "LOG_THIS_CATEGORY b tu None
      = (case log_source_category_impl tu of
           Some name \<Rightarrow> name
         | None \<Rightarrow> LOG_MODULE_CATEGORY b)"
    by (simp add: LOG_THIS_CATEGORY_def)
next
  assume "def_LOG_MODULE_CATEGORY b = None"
  then show "LOG_MODULE_CATEGORY b = None"
    by (simp add: LOG_MODULE_CATEGORY_def)
qed

text \<open>
  A translation unit with the source category \<open>''src''\<close>, in a build whose module category
  is \<open>''mod''\<close>. The body has a call site, the declaration of \<open>''a''\<close>, a call site, a block
  that declares \<open>''b''\<close> between two call sites, a block with a call site, and a call site.
  The categories are \<open>''src''\<close>, \<open>''a''\<close>, \<open>''a''\<close>, \<open>''b''\<close>, \<open>''a''\<close>, \<open>''a''\<close>; without the first
  block they are \<open>''src''\<close>, \<open>''a''\<close>, \<open>''a''\<close>, \<open>''a''\<close>. With no source category the first call
  site has the module's.
\<close>

theorem LOG_THIS_CATEGORY_resolution_witness:
  "function_body_categories ((default_build 24)\<lparr>def_LOG_MODULE_CATEGORY := Some (Some ''mod'')\<rparr>)
     \<lparr>log_source_category_impl = Some (Some ''src'')\<rparr>
     [Call_site, LOG_CATEGORY (Some ''a''), Call_site,
      Block [Call_site, LOG_CATEGORY (Some ''b''), Call_site], Block [Call_site], Call_site]
   = Inr [Some ''src'', Some ''a'', Some ''a'', Some ''b'', Some ''a'', Some ''a'']
   \<and> function_body_categories ((default_build 24)\<lparr>def_LOG_MODULE_CATEGORY := Some (Some ''mod'')\<rparr>)
     \<lparr>log_source_category_impl = Some (Some ''src'')\<rparr>
     [Call_site, LOG_CATEGORY (Some ''a''), Call_site, Block [Call_site], Call_site]
   = Inr [Some ''src'', Some ''a'', Some ''a'', Some ''a'']
   \<and> function_body_categories ((default_build 24)\<lparr>def_LOG_MODULE_CATEGORY := Some (Some ''mod'')\<rparr>)
     \<lparr>log_source_category_impl = None\<rparr> [Call_site, Block [LOG_CATEGORY (Some ''a'')]]
   = Inr [Some ''mod'']
   \<and> function_body_categories (default_build 24) \<lparr>log_source_category_impl = None\<rparr>
     [Call_site] = Inr [None]"
proof -
  let ?b = "(default_build 24)\<lparr>def_LOG_MODULE_CATEGORY := Some (Some ''mod'')\<rparr>"
  let ?tu = "\<lparr>log_source_category_impl = Some (Some ''src'')\<rparr>"
  let ?pre = "[Call_site, LOG_CATEGORY (Some ''a''), Call_site]"
  let ?blk = "[Call_site, LOG_CATEGORY (Some ''b''), Call_site]"
  let ?post = "[Block [Call_site], Call_site]"
  have on: "\<not> def_LOG_DISABLE ?b" "\<not> def_LOG_DISABLE (default_build 24)"
    by (simp_all add: default_build_def)
  have names: "names_not_null (?pre @ Block ?blk # ?post)"
    "names_not_null [Call_site, Block [LOG_CATEGORY (Some ''a'')]]"
    "names_not_null [Call_site]"
    by simp_all
  note whole = LOG_THIS_CATEGORY_resolution [OF on(1) names(1), of ?tu]
  note no_source = LOG_THIS_CATEGORY_resolution [OF on(1) names(2),
      of "\<lparr>log_source_category_impl = None\<rparr>"]
  note plain = LOG_THIS_CATEGORY_resolution [OF on(2) names(3),
      of "\<lparr>log_source_category_impl = None\<rparr>"]
  from whole have all_sites: "function_body_categories ?b ?tu (?pre @ Block ?blk # ?post)
      = Inr [Some ''src'', Some ''a'', Some ''a'', Some ''b'', Some ''a'', Some ''a'']"
    by (simp add: spec_category_def)
  from whole have "\<forall>cs. categories ?b ?tu None False (?pre @ Block ?blk # ?post) = Inr cs
      \<longrightarrow> categories ?b ?tu None False (?pre @ ?post)
            = Inr (take (call_sites ?pre) cs @ drop (call_sites ?pre + call_sites ?blk) cs)"
    by blast
  with all_sites have without: "function_body_categories ?b ?tu (?pre @ ?post)
      = Inr [Some ''src'', Some ''a'', Some ''a'', Some ''a'']"
    by (simp add: function_body_categories_def)
  from no_source have module: "function_body_categories ?b \<lparr>log_source_category_impl = None\<rparr>
      [Call_site, Block [LOG_CATEGORY (Some ''a'')]] = Inr [Some ''mod'']"
    by (simp add: spec_category_def)
  from plain have null: "function_body_categories (default_build 24)
      \<lparr>log_source_category_impl = None\<rparr> [Call_site] = Inr [None]"
    by (simp add: spec_category_def default_build_def)
  from all_sites without module null show ?thesis
    by simp
qed

text \<open>
  The claim as it was stated has the second of two declarations in one scope win. The
  two declarations are two definitions of \<^verbatim>\<open>_log_category\<close> in one block, which C rejects:
  no category is resolved, where the specification's chain gives \<open>''b''\<close>.
\<close>

theorem LOG_CATEGORY_twice_in_a_block:
  "function_body_categories (default_build 24) \<lparr>log_source_category_impl = None\<rparr>
     [LOG_CATEGORY (Some ''a''), LOG_CATEGORY (Some ''b''), Call_site] = Inl Redefinition
   \<and> spec_categories (default_build 24) \<lparr>log_source_category_impl = None\<rparr> None
     [LOG_CATEGORY (Some ''a''), LOG_CATEGORY (Some ''b''), Call_site] = [Some ''b'']"
  by (simp add: function_body_categories_def default_build_def spec_category_def)

section \<open>Properties of the header\<close>

subsection \<open>The level scale\<close>

text \<open>
  C6. The thresholds are TRACE = 1, INFO = 30, WARN = 40, ERROR = 50, PANIC = 60 and
  NONE = 70, strictly increasing. ALL and TRACE are the same integer, 1, so whatever is
  computed from a level (the name that \<^verbatim>\<open>log_level_name\<close> looks up included) is the same for
  both. Of the compatibility levels, every one but \<^verbatim>\<open>DEFAULT_LEVEL\<close> has the value of a
  threshold; \<^verbatim>\<open>DEFAULT_LEVEL\<close> is 0, below the scale.
\<close>

theorem LogLevel_scale:
  "map LogLevel_value thresholds = [1, 30, 40, 50, 60, 70]
   \<and> sorted_wrt (<) (map LogLevel_value thresholds)
   \<and> LogLevel_value LOG_LEVEL_ALL = 1
   \<and> LogLevel_value LOG_LEVEL_ALL = LogLevel_value LOG_LEVEL_TRACE
   \<and> log_level_name (LogLevel_value LOG_LEVEL_ALL) reserved
       = log_level_name (LogLevel_value LOG_LEVEL_TRACE) reserved
   \<and> filter (\<lambda>l. \<not> on_scale l) compatibility_levels = [DEFAULT_LEVEL]
   \<and> map LogLevel_value (remove1 DEFAULT_LEVEL compatibility_levels)
       = [1, 1, 1, 1, 30, 40, 50, 60, 70]
   \<and> LogLevel_value DEFAULT_LEVEL = 0"
  by (simp add: thresholds_def compatibility_levels_def on_scale_def)

text \<open>
  The claim as it was stated also puts \<^verbatim>\<open>DEFAULT_LEVEL\<close> on the scale. It is a compatibility
  level of the header and its value is the value of no threshold.
\<close>

theorem DEFAULT_LEVEL_off_scale:
  "DEFAULT_LEVEL \<in> set compatibility_levels \<and> \<not> on_scale DEFAULT_LEVEL"
  by (simp add: thresholds_def compatibility_levels_def on_scale_def)

subsection \<open>The compile-time floor\<close>

text \<open>
  C2. When the level of a call site is below \<^verbatim>\<open>LOG_COMPILE_TIME_LEVEL\<close>, each of \<^verbatim>\<open>LOG_C\<close>,
  \<^verbatim>\<open>LOG_WRITE_C\<close>, \<^verbatim>\<open>LOG_PRINT_C\<close>, \<^verbatim>\<open>LOG_PRINTF_C\<close> and \<^verbatim>\<open>LOG_DUMP_C\<close> leaves the state as it
  was, whatever the functions behind the header do: none of them is called, and no
  attributes are built and handed to \<^verbatim>\<open>log_init_attr\<close>.
\<close>

theorem below_floor_no_effect:
  assumes "LogLevel_value level < LOG_COMPILE_TIME_LEVEL b"
  shows "LOG_C b api loc level category fmt args s = s
         \<and> LOG_WRITE_C b api level category data sz s = s
         \<and> LOG_PRINT_C b api level category str s = s
         \<and> LOG_PRINTF_C b api level category fmt args s = s
         \<and> LOG_DUMP_C b api level category bytes sz s = s"
  using assms
  by (simp add: LOG_C_def LOG_WRITE_C_def LOG_PRINT_C_def LOG_PRINTF_C_def LOG_DUMP_C_def)

text \<open>
  With the floor at INFO, the five macros at TRACE make no call that the recording
  implementation would have recorded.
\<close>

theorem below_floor_no_effect_witness:
  "LogLevel_value LOG_LEVEL_TRACE
     < LOG_COMPILE_TIME_LEVEL ((default_build 24)\<lparr>def_LOG_COMPILE_TIME_LEVEL := Some 30\<rparr>)
   \<and> LOG_C ((default_build 24)\<lparr>def_LOG_COMPILE_TIME_LEVEL := Some 30\<rparr>) recording_api
        \<lparr>loc_file = ''main.c'', loc_line = 7, loc_function = ''f''\<rparr>
        LOG_LEVEL_TRACE (Some ''net.tcp'') ''x=%d'' [1::int] [] = []
   \<and> LOG_WRITE_C ((default_build 24)\<lparr>def_LOG_COMPILE_TIME_LEVEL := Some 30\<rparr>) recording_api
        LOG_LEVEL_TRACE (Some ''net.tcp'') ''abc'' 3 ([] :: int list call list) = []
   \<and> LOG_PRINT_C ((default_build 24)\<lparr>def_LOG_COMPILE_TIME_LEVEL := Some 30\<rparr>) recording_api
        LOG_LEVEL_TRACE (Some ''net.tcp'') ''abc'' ([] :: int list call list) = []
   \<and> LOG_PRINTF_C ((default_build 24)\<lparr>def_LOG_COMPILE_TIME_LEVEL := Some 30\<rparr>) recording_api
        LOG_LEVEL_TRACE (Some ''net.tcp'') ''x=%d'' [1::int] [] = []
   \<and> LOG_DUMP_C ((default_build 24)\<lparr>def_LOG_COMPILE_TIME_LEVEL := Some 30\<rparr>) recording_api
        LOG_LEVEL_TRACE (Some ''net.tcp'') [0, 255, 26] 3 ([] :: int list call list) = []"
proof -
  have floor: "LogLevel_value LOG_LEVEL_TRACE
      < LOG_COMPILE_TIME_LEVEL ((default_build 24)\<lparr>def_LOG_COMPILE_TIME_LEVEL := Some 30\<rparr>)"
    by (simp add: LOG_COMPILE_TIME_LEVEL_def default_build_def)
  show ?thesis
    using floor below_floor_no_effect [OF floor, of recording_api] by simp
qed

text \<open>
  C10. In a build that does not define \<^verbatim>\<open>LOG_COMPILE_TIME_LEVEL\<close> the floor is
  \<^verbatim>\<open>LOG_LEVEL_ALL\<close>, which is 1, and each of the levels ALL, TRACE, INFO, WARN, ERROR and
  PANIC is at or above it. Unless \<^verbatim>\<open>LOG_DISABLE\<close> is defined, each of the five macros
  at such a level therefore makes its call.
\<close>

theorem default_floor_strips_nothing:
  assumes "def_LOG_COMPILE_TIME_LEVEL b = None"
    and "level \<in> {LOG_LEVEL_ALL, LOG_LEVEL_TRACE, LOG_LEVEL_INFO, LOG_LEVEL_WARN,
                    LOG_LEVEL_ERROR, LOG_LEVEL_PANIC}"
  shows "LOG_COMPILE_TIME_LEVEL b = LogLevel_value LOG_LEVEL_ALL
         \<and> LOG_COMPILE_TIME_LEVEL b = 1
         \<and> LogLevel_value level \<ge> LOG_COMPILE_TIME_LEVEL b
         \<and> (\<not> def_LOG_DISABLE b \<longrightarrow>
              LOG_C b api loc level category fmt args s
                = (case LOG_INIT_ATTR b api loc s of
                     (attr, s') \<Rightarrow>
                       ext_log_message api (LogLevel_value level) category attr None fmt args s')
              \<and> LOG_WRITE_C b api level category data sz s
                  = ext_log_write api (LogLevel_value level) category data sz None s
              \<and> LOG_PRINT_C b api level category str s
                  = ext_log_write api (LogLevel_value level) category str (length str) None s
              \<and> LOG_PRINTF_C b api level category fmt args s
                  = ext_log_printf api (LogLevel_value level) category None fmt args s
              \<and> LOG_DUMP_C b api level category bytes sz s
                  = ext_log_dump api (LogLevel_value level) category bytes sz 0 None s)"
proof -
  from assms(1) have floor: "LOG_COMPILE_TIME_LEVEL b = 1"
    by (simp add: LOG_COMPILE_TIME_LEVEL_def)
  from assms(2) have "1 \<le> LogLevel_value level"
    by auto
  with floor show ?thesis
    by (simp add: LOG_C_def LOG_WRITE_C_def LOG_PRINT_C_def LOG_PRINTF_C_def LOG_DUMP_C_def)
qed

text \<open>
  In the default build a \<^verbatim>\<open>LOG_C\<close> at TRACE, the lowest level, reaches \<^verbatim>\<open>log_message\<close>.
\<close>

theorem default_floor_strips_nothing_witness:
  "def_LOG_COMPILE_TIME_LEVEL (default_build 24) = None
   \<and> LOG_COMPILE_TIME_LEVEL (default_build 24) = 1
   \<and> LOG_C (default_build 24) recording_api
        \<lparr>loc_file = ''main.c'', loc_line = 7, loc_function = ''f''\<rparr>
        LOG_LEVEL_TRACE (Some ''net.tcp'') ''x=%d'' [1::int] []
      = [Call_log_init_attr
           \<lparr>attr_size = 24, attr_flags = 0, attr_file = None, attr_line = 0,
            attr_function = None, attr_time = 0\<rparr> None,
         Call_log_message 1 (Some ''net.tcp'')
           \<lparr>attr_size = 24, attr_flags = 0, attr_file = None, attr_line = 0,
            attr_function = None, attr_time = 0\<rparr> None ''x=%d'' [1]]"
proof -
  have undefined_floor: "def_LOG_COMPILE_TIME_LEVEL (default_build 24) = None"
    by (simp add: default_build_def)
  have level: "LOG_LEVEL_TRACE \<in> {LOG_LEVEL_ALL, LOG_LEVEL_TRACE, LOG_LEVEL_INFO,
      LOG_LEVEL_WARN, LOG_LEVEL_ERROR, LOG_LEVEL_PANIC}"
    by simp
  have enabled: "\<not> def_LOG_DISABLE (default_build 24)"
    by (simp add: default_build_def)
  show ?thesis
    using undefined_floor enabled
      default_floor_strips_nothing [OF undefined_floor level, of recording_api
        "\<lparr>loc_file = ''main.c'', loc_line = 7, loc_function = ''f''\<rparr>"
        "Some ''net.tcp''" "''x=%d''" "[1::int]" "[]"]
    by (simp add: LOG_INIT_ATTR_def LogAttributes_initializer_def LOG_SOURCE_INFO_def
        recording_api_def default_build_def)
qed

subsection \<open>The attributes\<close>

text \<open>
  C9. The attributes that \<^verbatim>\<open>_LOG_INIT_ATTR\<close> builds have their size member set to
  \<^verbatim>\<open>sizeof(LogAttributes)\<close> and their flags to 0 in every build; in a build without
  \<^verbatim>\<open>LOG_INCLUDE_SOURCE_INFO\<close> the file and function members are \<^verbatim>\<open>NULL\<close> and the line is 0.
  These attributes are what \<^verbatim>\<open>log_init_attr\<close> is given, and what it hands back is what
  \<^verbatim>\<open>LOG_C\<close> passes to \<^verbatim>\<open>log_message\<close>: for every \<^verbatim>\<open>log_init_attr\<close> that leaves the four
  members alone, the attributes dispatched have them as built.
\<close>

theorem LogAttributes_built:
  "attr_size (LogAttributes_initializer b loc) = sizeof_LogAttributes b
   \<and> attr_flags (LogAttributes_initializer b loc) = 0
   \<and> (\<not> def_LOG_INCLUDE_SOURCE_INFO b \<longrightarrow>
        attr_file (LogAttributes_initializer b loc) = None
        \<and> attr_line (LogAttributes_initializer b loc) = 0
        \<and> attr_function (LogAttributes_initializer b loc) = None)
   \<and> LOG_INIT_ATTR b api loc s
       = ext_log_init_attr api (LogAttributes_initializer b loc) None s
   \<and> (\<not> def_LOG_DISABLE b \<and> LogLevel_value level \<ge> LOG_COMPILE_TIME_LEVEL b \<longrightarrow>
        LOG_C b api loc level category fmt args s
          = ext_log_message api (LogLevel_value level) category
              (fst (LOG_INIT_ATTR b api loc s)) None fmt args (snd (LOG_INIT_ATTR b api loc s)))
   \<and> ((\<forall>a r t. attr_size (fst (ext_log_init_attr api a r t)) = attr_size a
                \<and> attr_file (fst (ext_log_init_attr api a r t)) = attr_file a
                \<and> attr_line (fst (ext_log_init_attr api a r t)) = attr_line a
                \<and> attr_function (fst (ext_log_init_attr api a r t)) = attr_function a) \<longrightarrow>
        attr_size (fst (LOG_INIT_ATTR b api loc s)) = sizeof_LogAttributes b
        \<and> (\<not> def_LOG_INCLUDE_SOURCE_INFO b \<longrightarrow>
             attr_file (fst (LOG_INIT_ATTR b api loc s)) = None
             \<and> attr_line (fst (LOG_INIT_ATTR b api loc s)) = 0
             \<and> attr_function (fst (LOG_INIT_ATTR b api loc s)) = None))"
proof -
  have built: "attr_size (LogAttributes_initializer b loc) = sizeof_LogAttributes b
      \<and> attr_flags (LogAttributes_initializer b loc) = 0
      \<and> (\<not> def_LOG_INCLUDE_SOURCE_INFO b \<longrightarrow>
           attr_file (LogAttributes_initializer b loc) = None
           \<and> attr_line (LogAttributes_initializer b loc) = 0
           \<and> attr_function (LogAttributes_initializer b loc) = None)"
    by (simp add: LogAttributes_initializer_def LOG_SOURCE_INFO_def)
  have passed: "\<not> def_LOG_DISABLE b \<and> LogLevel_value level \<ge> LOG_COMPILE_TIME_LEVEL b \<longrightarrow>
      LOG_C b api loc level category fmt args s
        = ext_log_message api (LogLevel_value level) category
            (fst (LOG_INIT_ATTR b api loc s)) None fmt args (snd (LOG_INIT_ATTR b api loc s))"
    by (simp add: LOG_C_def split: prod.split)
  from built passed show ?thesis
    by (simp add: LOG_INIT_ATTR_def)
qed

text \<open>
  In the default build, which has no source information, the recording implementation is
  handed attributes of size 24 with no file, line 0 and no function, and hands them back.
\<close>

theorem LogAttributes_built_witness:
  "\<not> def_LOG_INCLUDE_SOURCE_INFO (default_build 24)
   \<and> attr_size (fst (LOG_INIT_ATTR (default_build 24) recording_api
        \<lparr>loc_file = ''main.c'', loc_line = 7, loc_function = ''f''\<rparr>
        ([] :: unit call list))) = 24
   \<and> attr_file (fst (LOG_INIT_ATTR (default_build 24) recording_api
        \<lparr>loc_file = ''main.c'', loc_line = 7, loc_function = ''f''\<rparr>
        ([] :: unit call list))) = None
   \<and> attr_line (fst (LOG_INIT_ATTR (default_build 24) recording_api
        \<lparr>loc_file = ''main.c'', loc_line = 7, loc_function = ''f''\<rparr>
        ([] :: unit call list))) = 0
   \<and> attr_function (fst (LOG_INIT_ATTR (default_build 24) recording_api
        \<lparr>loc_file = ''main.c'', loc_line = 7, loc_function = ''f''\<rparr>
        ([] :: unit call list))) = None
   \<and> attr_size (LogAttributes_initializer
        ((default_build 24)\<lparr>def_LOG_INCLUDE_SOURCE_INFO := True\<rparr>)
        \<lparr>loc_file = ''main.c'', loc_line = 7, loc_function = ''f''\<rparr>) = 24"
proof -
  have keeps: "\<forall>a r t.
      attr_size (fst (ext_log_init_attr (recording_api :: (unit call list, unit) api) a r t))
        = attr_size a
      \<and> attr_file (fst (ext_log_init_attr (recording_api :: (unit call list, unit) api) a r t))
        = attr_file a
      \<and> attr_line (fst (ext_log_init_attr (recording_api :: (unit call list, unit) api) a r t))
        = attr_line a
      \<and> attr_function (fst (ext_log_init_attr (recording_api :: (unit call list, unit) api) a r t))
        = attr_function a"
    by (simp add: recording_api_def)
  have off: "\<not> def_LOG_INCLUDE_SOURCE_INFO (default_build 24)"
    by (simp add: default_build_def)
  show ?thesis
    using keeps off
      LogAttributes_built [of "default_build 24"
        "\<lparr>loc_file = ''main.c'', loc_line = 7, loc_function = ''f''\<rparr>"
        "recording_api :: (unit call list, unit) api" "[]"]
      LogAttributes_built [of "(default_build 24)\<lparr>def_LOG_INCLUDE_SOURCE_INFO := True\<rparr>"
        "\<lparr>loc_file = ''main.c'', loc_line = 7, loc_function = ''f''\<rparr>"
        "recording_api :: (unit call list, unit) api" "[]"]
    by (simp add: default_build_def)
qed

subsection \<open>\<^verbatim>\<open>PANIC\<close>\<close>

text \<open>
  C8. \<^verbatim>\<open>PANIC(code, ...)\<close> first runs \<^verbatim>\<open>LOG(PANIC, ...)\<close>: when logging is not disabled and
  \<^verbatim>\<open>LOG_LEVEL_PANIC\<close> is at or above the compile-time floor, the attributes are initialised
  and \<^verbatim>\<open>log_message\<close> is called at level 60 with the category of the call site, whatever
  backend is registered; otherwise nothing is logged. In every build, and for every
  implementation of the declared functions, it then calls \<^verbatim>\<open>panic_\<close> with the caller's
  code, \<^verbatim>\<open>NULL\<close> and \<^verbatim>\<open>HAL_Delay_Microseconds\<close>, on the state the logging has left. With
  \<^verbatim>\<open>panic_\<close> as the specification describes it, the hook is given that code, and \<^verbatim>\<open>PANIC\<close>
  never returns.
\<close>

theorem PANIC_sequence:
  "PANIC b api tu loc log_category code fmt args s
     = ext_panic api code None (ext_HAL_Delay_Microseconds api)
         (if \<not> def_LOG_DISABLE b \<and> LogLevel_value LOG_LEVEL_PANIC \<ge> LOG_COMPILE_TIME_LEVEL b
          then ext_log_message api 60 (LOG_THIS_CATEGORY b tu log_category)
                 (fst (LOG_INIT_ATTR b api loc s)) None fmt args
                 (snd (LOG_INIT_ATTR b api loc s))
          else s)
   \<and> PANIC b (api\<lparr>ext_panic := panic halt\<rparr>) tu loc log_category code fmt args s
       = Never_returns
           (halt code None (ext_HAL_Delay_Microseconds api)
              (if \<not> def_LOG_DISABLE b
                  \<and> LogLevel_value LOG_LEVEL_PANIC \<ge> LOG_COMPILE_TIME_LEVEL b
               then ext_log_message api 60 (LOG_THIS_CATEGORY b tu log_category)
                      (fst (LOG_INIT_ATTR b api loc s)) None fmt args
                      (snd (LOG_INIT_ATTR b api loc s))
               else s))
   \<and> \<not> returns (PANIC b (api\<lparr>ext_panic := panic halt\<rparr>) tu loc log_category code fmt args s)"
proof -
  have any: "PANIC b api tu loc log_category code fmt args s
      = ext_panic api code None (ext_HAL_Delay_Microseconds api)
          (if \<not> def_LOG_DISABLE b \<and> LogLevel_value LOG_LEVEL_PANIC \<ge> LOG_COMPILE_TIME_LEVEL b
           then ext_log_message api 60 (LOG_THIS_CATEGORY b tu log_category)
                  (fst (LOG_INIT_ATTR b api loc s)) None fmt args
                  (snd (LOG_INIT_ATTR b api loc s))
           else s)"
    by (simp add: PANIC_def LOG_def LOG_C_def split: prod.split)
  have hook: "PANIC b (api\<lparr>ext_panic := panic halt\<rparr>) tu loc log_category code fmt args s
      = Never_returns
          (halt code None (ext_HAL_Delay_Microseconds api)
             (if \<not> def_LOG_DISABLE b
                 \<and> LogLevel_value LOG_LEVEL_PANIC \<ge> LOG_COMPILE_TIME_LEVEL b
              then ext_log_message api 60 (LOG_THIS_CATEGORY b tu log_category)
                     (fst (LOG_INIT_ATTR b api loc s)) None fmt args
                     (snd (LOG_INIT_ATTR b api loc s))
              else s))"
    by (simp add: PANIC_def LOG_def LOG_C_def LOG_INIT_ATTR_def panic_def split: prod.split)
  then have "\<not> returns (PANIC b (api\<lparr>ext_panic := panic halt\<rparr>) tu loc log_category code
      fmt args s)"
    by (simp add: returns_def)
  with any hook show ?thesis
    by (intro conjI)
qed

text \<open>
  The recording implementation with the hook of the specification, which records the call
  before control is lost: in the default build the attributes are initialised, the
  message is logged at level 60, the hook is given the code 1, and \<^verbatim>\<open>PANIC\<close> does not return.
\<close>

theorem PANIC_sequence_witness:
  "PANIC (default_build 24)
     (recording_api\<lparr>ext_panic := panic (\<lambda>code r hal t. t @ [Call_panic code r])\<rparr>)
     \<lparr>log_source_category_impl = None\<rparr>
     \<lparr>loc_file = ''main.c'', loc_line = 7, loc_function = ''f''\<rparr> (Some ''app'') 1
     ''out of heap'' () []
   = Never_returns
       [Call_log_init_attr
          \<lparr>attr_size = 24, attr_flags = 0, attr_file = None, attr_line = 0,
           attr_function = None, attr_time = 0\<rparr> None,
        Call_log_message 60 (Some ''app'')
          \<lparr>attr_size = 24, attr_flags = 0, attr_file = None, attr_line = 0,
           attr_function = None, attr_time = 0\<rparr> None ''out of heap'' (),
        Call_panic 1 None]
   \<and> \<not> returns (PANIC (default_build 24)
         (recording_api\<lparr>ext_panic := panic (\<lambda>code r hal t. t @ [Call_panic code r])\<rparr>)
         \<lparr>log_source_category_impl = None\<rparr>
         \<lparr>loc_file = ''main.c'', loc_line = 7, loc_function = ''f''\<rparr> (Some ''app'') 1
         ''out of heap'' () [])"
proof -
  note at_call = PANIC_sequence [of "default_build 24"
      "recording_api :: (unit call list, unit) api" "\<lparr>log_source_category_impl = None\<rparr>"
      "\<lparr>loc_file = ''main.c'', loc_line = 7, loc_function = ''f''\<rparr>" "Some ''app''" 1
      "''out of heap''" "()" "[]" "\<lambda>code r hal t. t @ [Call_panic code r]"]
  from at_call have halted: "\<not> returns (PANIC (default_build 24)
      (recording_api\<lparr>ext_panic := panic (\<lambda>code r hal t. t @ [Call_panic code r])\<rparr>)
      \<lparr>log_source_category_impl = None\<rparr>
      \<lparr>loc_file = ''main.c'', loc_line = 7, loc_function = ''f''\<rparr> (Some ''app'') 1
      ''out of heap'' () [])"
    by (elim conjE)
  from at_call have "PANIC (default_build 24)
      (recording_api\<lparr>ext_panic := panic (\<lambda>code r hal t. t @ [Call_panic code r])\<rparr>)
      \<lparr>log_source_category_impl = None\<rparr>
      \<lparr>loc_file = ''main.c'', loc_line = 7, loc_function = ''f''\<rparr> (Some ''app'') 1
      ''out of heap'' () []
    = Never_returns
        [Call_log_init_attr
           \<lparr>attr_size = 24, attr_flags = 0, attr_file = None, attr_line = 0,
            attr_function = None, attr_time = 0\<rparr> None,
         Call_log_message 60 (Some ''app'')
           \<lparr>attr_size = 24, attr_flags = 0, attr_file = None, attr_line = 0,
            attr_function = None, attr_time = 0\<rparr> None ''out of heap'' (),
         Call_panic 1 None]"
    by (simp add: default_build_def LOG_COMPILE_TIME_LEVEL_def LOG_INIT_ATTR_def
        LogAttributes_initializer_def LOG_SOURCE_INFO_def LOG_THIS_CATEGORY_def
        recording_api_def)
  with halted show ?thesis
    by (intro conjI)
qed

text \<open>
  The claim as it was stated has the message logged at every invocation. In a build whose
  floor is \<^verbatim>\<open>LOG_LEVEL_NONE\<close> the guard of \<^verbatim>\<open>LOG_C\<close> fails for \<^verbatim>\<open>LOG_LEVEL_PANIC\<close>: the only
  call that \<^verbatim>\<open>PANIC\<close> makes is the one to \<^verbatim>\<open>panic_\<close>.
\<close>

theorem PANIC_floor_NONE_logs_nothing:
  "PANIC ((default_build 24)\<lparr>def_LOG_COMPILE_TIME_LEVEL := Some (LogLevel_value LOG_LEVEL_NONE)\<rparr>)
     recording_api \<lparr>log_source_category_impl = None\<rparr>
     \<lparr>loc_file = ''main.c'', loc_line = 7, loc_function = ''f''\<rparr> (Some ''app'') 1
     ''out of heap'' () []
   = Never_returns [Call_panic 1 None]"
  by (simp add: PANIC_def LOG_def LOG_C_def default_build_def LOG_COMPILE_TIME_LEVEL_def
      recording_api_def)

section \<open>Properties of the functions behind the header\<close>

subsection \<open>The enabled check\<close>

text \<open>
  C3. In a build without \<^verbatim>\<open>LOG_DISABLE\<close>, with \<^verbatim>\<open>log_enabled\<close> as the specification describes
  it: at or above the compile-time floor \<^verbatim>\<open>LOG_ENABLED_C\<close> is true exactly when the
  registered predicate answers true for the level, the category and the registered
  context (the value of the C conjunction is 1 or 0), and it is 1 when no predicate is
  registered; below the floor it is 0 and the state is untouched, whatever function
  stands for \<^verbatim>\<open>log_enabled\<close>: the predicate is not consulted.
\<close>

theorem LOG_ENABLED_C_result:
  assumes "\<not> def_LOG_DISABLE b"
  shows "(LogLevel_value level \<ge> LOG_COMPILE_TIME_LEVEL b \<and> log_enabled_callback st = Some p \<longrightarrow>
            LOG_ENABLED_C b (api\<lparr>ext_log_enabled := log_enabled\<rparr>) level category st
              = (if fst (p (LogLevel_value level) category (reserved_context st) (backend st)) \<noteq> 0
                 then 1 else 0,
                 st\<lparr>backend :=
                      snd (p (LogLevel_value level) category (reserved_context st) (backend st))\<rparr>))
         \<and> (LogLevel_value level \<ge> LOG_COMPILE_TIME_LEVEL b \<and> log_enabled_callback st = None \<longrightarrow>
              LOG_ENABLED_C b (api\<lparr>ext_log_enabled := log_enabled\<rparr>) level category st = (1, st))
         \<and> (LogLevel_value level < LOG_COMPILE_TIME_LEVEL b \<longrightarrow>
              LOG_ENABLED_C b any_api level category s = (0, s))"
  using assms
  by (simp add: LOG_ENABLED_C_def log_enabled_def split: prod.split)

text \<open>
  With the floor at INFO: at WARN a predicate that answers 0 is asked and the check is 0,
  one that answers 1 makes it 1, and with no predicate it is 1; at TRACE the check is 0
  and the predicate that would answer 1 has not been asked.
\<close>

theorem LOG_ENABLED_C_result_witness:
  "fst (LOG_ENABLED_C ((default_build 24)\<lparr>def_LOG_COMPILE_TIME_LEVEL := Some 30\<rparr>)
          ((stub_api :: (received list registration, unit) api)\<lparr>ext_log_enabled := log_enabled\<rparr>)
          LOG_LEVEL_WARN (Some ''net.tcp'')
          (log_set_callbacks None None (Some (answer 0)) (Some 5) (unset_registration []))) = 0
   \<and> backend (snd (LOG_ENABLED_C ((default_build 24)\<lparr>def_LOG_COMPILE_TIME_LEVEL := Some 30\<rparr>)
          ((stub_api :: (received list registration, unit) api)\<lparr>ext_log_enabled := log_enabled\<rparr>)
          LOG_LEVEL_WARN (Some ''net.tcp'')
          (log_set_callbacks None None (Some (answer 0)) (Some 5) (unset_registration []))))
       = [Asked 40 (Some ''net.tcp'') (Some 5)]
   \<and> fst (LOG_ENABLED_C ((default_build 24)\<lparr>def_LOG_COMPILE_TIME_LEVEL := Some 30\<rparr>)
          ((stub_api :: (received list registration, unit) api)\<lparr>ext_log_enabled := log_enabled\<rparr>)
          LOG_LEVEL_WARN (Some ''net.tcp'')
          (log_set_callbacks None None (Some (answer 1)) (Some 5) (unset_registration []))) = 1
   \<and> fst (LOG_ENABLED_C ((default_build 24)\<lparr>def_LOG_COMPILE_TIME_LEVEL := Some 30\<rparr>)
          ((stub_api :: (received list registration, unit) api)\<lparr>ext_log_enabled := log_enabled\<rparr>)
          LOG_LEVEL_WARN (Some ''net.tcp'') (unset_registration [])) = 1
   \<and> fst (LOG_ENABLED_C ((default_build 24)\<lparr>def_LOG_COMPILE_TIME_LEVEL := Some 30\<rparr>)
          ((stub_api :: (received list registration, unit) api)\<lparr>ext_log_enabled := log_enabled\<rparr>)
          LOG_LEVEL_TRACE (Some ''net.tcp'')
          (log_set_callbacks None None (Some (answer 1)) (Some 5) (unset_registration []))) = 0
   \<and> backend (snd (LOG_ENABLED_C ((default_build 24)\<lparr>def_LOG_COMPILE_TIME_LEVEL := Some 30\<rparr>)
          ((stub_api :: (received list registration, unit) api)\<lparr>ext_log_enabled := log_enabled\<rparr>)
          LOG_LEVEL_TRACE (Some ''net.tcp'')
          (log_set_callbacks None None (Some (answer 1)) (Some 5) (unset_registration []))))
       = []"
proof -
  have on: "\<not> def_LOG_DISABLE ((default_build 24)\<lparr>def_LOG_COMPILE_TIME_LEVEL := Some 30\<rparr>)"
    by (simp add: default_build_def)
  have floor: "LOG_COMPILE_TIME_LEVEL ((default_build 24)\<lparr>def_LOG_COMPILE_TIME_LEVEL := Some 30\<rparr>)
      = 30"
    by (simp add: LOG_COMPILE_TIME_LEVEL_def)
  show ?thesis
    using floor
      LOG_ENABLED_C_result [OF on, of LOG_LEVEL_WARN
        "log_set_callbacks None None (Some (answer 0)) (Some 5) (unset_registration [])"
        "answer 0" "stub_api :: (received list registration, unit) api" "Some ''net.tcp''"]
      LOG_ENABLED_C_result [OF on, of LOG_LEVEL_WARN
        "log_set_callbacks None None (Some (answer 1)) (Some 5) (unset_registration [])"
        "answer 1" "stub_api :: (received list registration, unit) api" "Some ''net.tcp''"]
      LOG_ENABLED_C_result [OF on, of LOG_LEVEL_WARN "unset_registration []" "answer 1"
        "stub_api :: (received list registration, unit) api" "Some ''net.tcp''"]
      LOG_ENABLED_C_result [OF on, of LOG_LEVEL_TRACE
        "log_set_callbacks None None (Some (answer 1)) (Some 5) (unset_registration [])"
        "answer 1" "stub_api" "Some ''net.tcp''"
        "(stub_api :: (received list registration, unit) api)\<lparr>ext_log_enabled := log_enabled\<rparr>"
        "log_set_callbacks None None (Some (answer 1)) (Some 5) (unset_registration [])"]
    by (simp add: log_set_callbacks_def unset_registration_def answer_def)
qed

subsection \<open>Unset callbacks\<close>

text \<open>
  C7. With the functions as the specification describes them: \<^verbatim>\<open>log_message\<close> with no
  message callback registered returns the registration and the backend as they were,
  also when a write callback is registered; \<^verbatim>\<open>log_write\<close> and \<^verbatim>\<open>log_dump\<close> with no write
  callback registered do the same. Nothing is kept for later: the state is the whole of
  what the functions can change.
\<close>

theorem unset_callback_no_op:
  "(log_msg_callback st = None \<longrightarrow>
      log_message b render level category attr reserved fmt args st = st)
   \<and> (log_write_callback st = None \<longrightarrow>
        log_write level category data sz reserved st = st
        \<and> log_dump bound level category bytes sz reserved st = st)"
  by (simp add: log_message_def log_write_def log_dump_def)

text \<open>
  A registration with a write callback and no message callback: \<^verbatim>\<open>log_message\<close> leaves it
  as it is, and the write callback has been given nothing. With no callback at all,
  \<^verbatim>\<open>log_write\<close> and \<^verbatim>\<open>log_dump\<close> leave the backend empty.
\<close>

theorem unset_callback_no_op_witness:
  "log_message (default_build 24) (\<lambda>fmt args. fmt @ args) 40 (Some ''net.tcp'')
     (LogAttributes_initializer (default_build 24)
        \<lparr>loc_file = ''main.c'', loc_line = 7, loc_function = ''f''\<rparr>)
     None ''rx '' ''lost''
     (log_set_callbacks None (Some keep_written) None None (unset_registration []))
   = log_set_callbacks None (Some keep_written) None None (unset_registration [])
   \<and> backend (log_message (default_build 24) (\<lambda>fmt args. fmt @ args) 40 (Some ''net.tcp'')
        (LogAttributes_initializer (default_build 24)
           \<lparr>loc_file = ''main.c'', loc_line = 7, loc_function = ''f''\<rparr>)
        None ''rx '' ''lost''
        (log_set_callbacks None (Some keep_written) None None (unset_registration []))) = []
   \<and> backend (log_write 40 (Some ''net.tcp'') ''abc'' 3 None
        (unset_registration ([] :: received list))) = []
   \<and> backend (log_dump 160 40 (Some ''net.tcp'') [0, 255, 26] 3 None
        (unset_registration ([] :: received list))) = []"
proof -
  have no_msg: "log_msg_callback
      (log_set_callbacks None (Some keep_written) None None (unset_registration [])) = None"
    by (simp add: log_set_callbacks_def)
  have no_write: "log_write_callback (unset_registration ([] :: received list)) = None"
    by (simp add: unset_registration_def)
  have empty: "backend (unset_registration ([] :: received list)) = []"
    "backend (log_set_callbacks None (Some keep_written) None None (unset_registration [])) = []"
    by (simp_all add: unset_registration_def log_set_callbacks_def)
  show ?thesis
    using no_msg no_write empty
      unset_callback_no_op [of
        "log_set_callbacks None (Some keep_written) None None (unset_registration [])"
        "default_build 24" "\<lambda>fmt args. fmt @ args" 40 "Some ''net.tcp''"
        "LogAttributes_initializer (default_build 24)
           \<lparr>loc_file = ''main.c'', loc_line = 7, loc_function = ''f''\<rparr>"
        None "''rx ''" "''lost''" "''abc''" 3 160 "[0, 255, 26]"]
      unset_callback_no_op [of "unset_registration ([] :: received list)"
        "default_build 24" "\<lambda>fmt args. fmt @ args" 40 "Some ''net.tcp''"
        "LogAttributes_initializer (default_build 24)
           \<lparr>loc_file = ''main.c'', loc_line = 7, loc_function = ''f''\<rparr>"
        None "''rx ''" "''lost''" "''abc''" 3 160 "[0, 255, 26]"]
    by simp
qed

subsection \<open>The bounded message\<close>

text \<open>
  C4. With \<^verbatim>\<open>log_message\<close> as the specification describes it, a buffer of at least one
  byte and a rendered text that is a C string (it holds no null character): the message
  callback is given the first \<^verbatim>\<open>LOG_MAX_STRING_LENGTH - 1\<close> characters of the rendered text,
  which is all of it when it is no longer than that, and exactly that many characters
  when it is longer; the buffer holds these characters and the terminator and is never
  longer than \<^verbatim>\<open>LOG_MAX_STRING_LENGTH\<close>; the result is a state, never an error. The bound is
  160 when the build does not define it.
\<close>

theorem log_message_bounded:
  fixes b :: build and render :: "string \<Rightarrow> 'args \<Rightarrow> string" and fmt :: string and args :: 'args
  defines "n \<equiv> LOG_MAX_STRING_LENGTH b" and "text \<equiv> render fmt args"
  assumes "log_msg_callback st = Some cb" and "1 \<le> n" and "CHR 0x00 \<notin> set text"
  shows "log_message b render level category attr reserved fmt args st
           = st\<lparr>backend :=
                  cb (take (n - 1) text) level category attr (reserved_context st) (backend st)\<rparr>
         \<and> (length text \<le> n - 1 \<longrightarrow> take (n - 1) text = text)
         \<and> (n - 1 < length text \<longrightarrow> length (take (n - 1) text) = n - 1)
         \<and> bounded_buffer n text = take (n - 1) text @ [CHR 0x00]
         \<and> length (bounded_buffer n text) \<le> n
         \<and> (def_LOG_MAX_STRING_LENGTH b = None \<longrightarrow> n = 160)"
proof -
  from \<open>1 \<le> n\<close> have buf: "bounded_buffer n text = take (n - 1) text @ [CHR 0x00]"
    by (simp add: bounded_buffer_def)
  from \<open>CHR 0x00 \<notin> set text\<close> have "\<forall>c \<in> set (take (n - 1) text). c \<noteq> CHR 0x00"
    by (auto dest: in_set_takeD)
  then have "c_string (take (n - 1) text @ [CHR 0x00]) = take (n - 1) text"
    by (simp add: c_string_def)
  with buf have delivered: "c_string (bounded_buffer n text) = take (n - 1) text"
    by simp
  from \<open>log_msg_callback st = Some cb\<close> delivered
  have "log_message b render level category attr reserved fmt args st
      = st\<lparr>backend :=
             cb (take (n - 1) text) level category attr (reserved_context st) (backend st)\<rparr>"
    by (simp add: log_message_def n_def text_def)
  moreover from buf \<open>1 \<le> n\<close> have "length (bounded_buffer n text) \<le> n"
    by simp
  moreover have "def_LOG_MAX_STRING_LENGTH b = None \<longrightarrow> n = 160"
    by (simp add: n_def LOG_MAX_STRING_LENGTH_def)
  ultimately show ?thesis using buf by simp
qed

text \<open>
  A message callback that keeps what it is given. With a buffer of 8 bytes the text
  \<open>''net:overflowing''\<close> arrives as its first 7 characters; in the default build, whose
  buffer has 160 bytes, \<open>''net:up''\<close> arrives whole, with the level 40 and the category.
\<close>

theorem log_message_bounded_witness:
  "backend (log_message ((default_build 24)\<lparr>def_LOG_MAX_STRING_LENGTH := Some 8\<rparr>)
      (\<lambda>fmt args. fmt @ args) 40 (Some ''net.tcp'')
      (LogAttributes_initializer (default_build 24)
         \<lparr>loc_file = ''main.c'', loc_line = 7, loc_function = ''f''\<rparr>)
      None ''net:'' ''overflowing''
      (log_set_callbacks (Some keep_message) None None None (unset_registration [])))
   = [Message ''net:ove'' 40 (Some ''net.tcp'')
        (LogAttributes_initializer (default_build 24)
           \<lparr>loc_file = ''main.c'', loc_line = 7, loc_function = ''f''\<rparr>) None]
   \<and> backend (log_message (default_build 24)
      (\<lambda>fmt args. fmt @ args) 40 (Some ''net.tcp'')
      (LogAttributes_initializer (default_build 24)
         \<lparr>loc_file = ''main.c'', loc_line = 7, loc_function = ''f''\<rparr>)
      None ''net:'' ''up''
      (log_set_callbacks (Some keep_message) None None None (unset_registration [])))
   = [Message ''net:up'' 40 (Some ''net.tcp'')
        (LogAttributes_initializer (default_build 24)
           \<lparr>loc_file = ''main.c'', loc_line = 7, loc_function = ''f''\<rparr>) None]"
proof -
  have cb: "log_msg_callback
      (log_set_callbacks (Some keep_message) None None None (unset_registration []))
      = Some keep_message"
    by (simp add: log_set_callbacks_def)
  have small: "1 \<le> LOG_MAX_STRING_LENGTH ((default_build 24)\<lparr>def_LOG_MAX_STRING_LENGTH := Some 8\<rparr>)"
    and large: "1 \<le> LOG_MAX_STRING_LENGTH (default_build 24)"
    by (simp_all add: LOG_MAX_STRING_LENGTH_def default_build_def)
  have long: "CHR 0x00 \<notin> set ((\<lambda>fmt args. fmt @ args) ''net:'' ''overflowing'')"
    and short: "CHR 0x00 \<notin> set ((\<lambda>fmt args. fmt @ args) ''net:'' ''up'')"
    by simp_all
  show ?thesis
    using log_message_bounded [where render = "\<lambda>fmt args. fmt @ args" and fmt = "''net:''"
          and args = "''overflowing''" and level = 40 and category = "Some ''net.tcp''"
          and reserved = None
          and attr = "LogAttributes_initializer (default_build 24)
            \<lparr>loc_file = ''main.c'', loc_line = 7, loc_function = ''f''\<rparr>",
          OF cb small long]
      log_message_bounded [where render = "\<lambda>fmt args. fmt @ args" and fmt = "''net:''"
          and args = "''up''" and level = 40 and category = "Some ''net.tcp''"
          and reserved = None
          and attr = "LogAttributes_initializer (default_build 24)
            \<lparr>loc_file = ''main.c'', loc_line = 7, loc_function = ''f''\<rparr>",
          OF cb large short]
    by (simp add: LOG_MAX_STRING_LENGTH_def default_build_def log_set_callbacks_def
        unset_registration_def keep_message_def)
qed

subsection \<open>The hexadecimal dump\<close>

lemma nibble_cases:
  "n < 16 \<Longrightarrow> n \<in> set [0, 1, 2, 3, 4, 5, 6, 7, 8, 9, 10, 11, 12, 13, 14, 15::nat]"
proof -
  have upt: "[0..<16] = [0, 1, 2, 3, 4, 5, 6, 7, 8, 9, 10, 11, 12, 13, 14, 15::nat]"
    by code_simp
  assume "n < 16"
  then have "n \<in> set [0..<16]" by simp
  then show ?thesis by (simp only: upt)
qed

lemma hex_value_digit: "n < 16 \<Longrightarrow> hex_value (hex_digit n) = Some n"
  using nibble_cases [of n] by (auto simp: hex_digit_def hex_value_def)

lemma hex_digit_lower: "n < 16 \<Longrightarrow> hex_digit n \<in> set ''0123456789abcdef''"
  unfolding hex_digit_def by (rule nth_mem) simp

lemma high_nibble: "unat (x :: byte) div 16 < 16"
proof -
  have "unat x < 256" using unsigned_less [of x] by simp
  then show ?thesis by simp
qed

lemma byte_of_nibbles: "of_nat (16 * (unat x div 16) + unat x mod 16) = (x :: byte)"
  by simp

lemma hex_encode_Cons:
  "hex_encode (x # xs)
     = hex_digit (unat x div 16) # hex_digit (unat x mod 16) # hex_encode xs"
  by (simp add: hex_encode_def hex_byte_def)

lemma hex_decode_encode: "hex_decode (hex_encode bs) = Some bs"
proof (induction bs)
  case Nil
  show ?case by (simp add: hex_encode_def)
next
  case (Cons x xs)
  have hi: "hex_value (hex_digit (unat x div 16)) = Some (unat x div 16)"
    by (rule hex_value_digit) (rule high_nibble)
  have lo: "hex_value (hex_digit (unat x mod 16)) = Some (unat x mod 16)"
    by (rule hex_value_digit) simp
  show ?case
    by (simp only: hex_encode_Cons hex_decode.simps hi lo Cons.IH prod.case option.case
        byte_of_nibbles)
qed

lemma length_hex_encode: "length (hex_encode bs) = 2 * length bs"
  by (induction bs) (simp_all add: hex_encode_def hex_byte_def)

lemma hex_encode_lower: "set (hex_encode bs) \<subseteq> set ''0123456789abcdef''"
proof (induction bs)
  case Nil
  show ?case by (simp add: hex_encode_def)
next
  case (Cons x xs)
  have "hex_digit (unat x div 16) \<in> set ''0123456789abcdef''"
    by (rule hex_digit_lower) (rule high_nibble)
  moreover have "hex_digit (unat x mod 16) \<in> set ''0123456789abcdef''"
    by (rule hex_digit_lower) simp
  ultimately show ?case
    using Cons.IH by (simp only: hex_encode_Cons set_simps insert_subset)
qed

lemma chunks_Nil: "chunks n [] = []"
  by (subst chunks.simps) simp

lemma chunks_step:
  "0 < n \<Longrightarrow> xs \<noteq> [] \<Longrightarrow> chunks n xs = take n xs # chunks n (drop n xs)"
  by (subst chunks.simps) simp

lemma concat_chunks: "0 < n \<Longrightarrow> concat (chunks n xs) = xs"
proof (induction n xs rule: chunks.induct)
  case (1 n xs)
  show ?case
  proof (cases "xs = []")
    case True
    then show ?thesis by (simp add: chunks_Nil)
  next
    case False
    with "1.prems" have "concat (chunks n (drop n xs)) = drop n xs"
      using "1.IH" by simp
    with False "1.prems" show ?thesis
      by (simp add: chunks_step)
  qed
qed

lemma chunks_bounded: "w \<in> set (chunks n xs) \<Longrightarrow> w \<noteq> [] \<and> length w \<le> n"
proof (induction n xs rule: chunks.induct)
  case (1 n xs)
  show ?case
  proof (cases "n = 0 \<or> xs = []")
    case True
    with "1.prems" show ?thesis
      by (subst (asm) chunks.simps) simp
  next
    case False
    with "1.prems" have "w = take n xs \<or> w \<in> set (chunks n (drop n xs))"
      by (simp add: chunks_step)
    with False "1.IH" show ?thesis by auto
  qed
qed

text \<open>
  C5. With \<^verbatim>\<open>log_dump\<close> as the specification describes it and a buffer that holds at least
  one character: the buffers forwarded to the write callback, put end to end, are the
  lowercase hexadecimal text of the first \<open>sz\<close> bytes of the data, two characters for each
  byte and nothing between them, and decoding that text gives these bytes back; every
  buffer forwarded is non-empty and within the bound. Bytes past the declared size are not
  read: data that agree on the first \<open>sz\<close> bytes give the same output. For a size of 0
  nothing is forwarded. The bytes 00, FF, 1A give \<open>''00ff1a''\<close>.
\<close>

theorem log_dump_hex_roundtrip:
  assumes "0 < bound"
  shows "concat (dump_writes bound data sz) = hex_encode (take sz data)
         \<and> length (concat (dump_writes bound data sz)) = 2 * length (take sz data)
         \<and> set (concat (dump_writes bound data sz)) \<subseteq> set ''0123456789abcdef''
         \<and> hex_decode (concat (dump_writes bound data sz)) = Some (take sz data)
         \<and> (\<forall>w \<in> set (dump_writes bound data sz). w \<noteq> [] \<and> length w \<le> bound)
         \<and> (take sz data = take sz data' \<longrightarrow>
              dump_writes bound data sz = dump_writes bound data' sz)
         \<and> (sz = 0 \<longrightarrow> dump_writes bound data sz = [])
         \<and> (log_write_callback st = Some cb \<longrightarrow>
              log_dump bound level category data sz reserved st
                = st\<lparr>backend :=
                       fold (\<lambda>w bk. cb w (length w) level category (reserved_context st) bk)
                         (dump_writes bound data sz) (backend st)\<rparr>)
         \<and> concat (dump_writes bound [0x00, 0xFF, 0x1A] 3) = ''00ff1a''"
proof -
  from assms have whole: "concat (dump_writes bound data sz) = hex_encode (take sz data)"
    by (simp add: dump_writes_def concat_chunks)
  have bounded: "\<forall>w \<in> set (dump_writes bound data sz). w \<noteq> [] \<and> length w \<le> bound"
    by (auto simp: dump_writes_def dest: chunks_bounded)
  have same: "take sz data = take sz data' \<longrightarrow>
      dump_writes bound data sz = dump_writes bound data' sz"
    by (simp add: dump_writes_def)
  have no_write: "sz = 0 \<longrightarrow> dump_writes bound data sz = []"
    by (simp add: dump_writes_def hex_encode_def chunks_Nil)
  have forwarded: "log_write_callback st = Some cb \<longrightarrow>
      log_dump bound level category data sz reserved st
        = st\<lparr>backend :=
               fold (\<lambda>w bk. cb w (length w) level category (reserved_context st) bk)
                 (dump_writes bound data sz) (backend st)\<rparr>"
    by (simp add: log_dump_def)
  from assms have "concat (dump_writes bound [0x00, 0xFF, 0x1A] 3)
      = hex_encode (take 3 [0x00, 0xFF, 0x1A])"
    by (simp add: dump_writes_def concat_chunks)
  also have "\<dots> = ''00ff1a''"
    by (simp add: hex_encode_def hex_byte_def hex_digit_def)
  finally have example: "concat (dump_writes bound [0x00, 0xFF, 0x1A] 3) = ''00ff1a''" .
  from whole bounded same no_write forwarded example show ?thesis
    by (simp only: length_hex_encode hex_encode_lower hex_decode_encode simp_thms)
qed

text \<open>
  With a buffer of 4 characters the three bytes are forwarded as two buffers; a write
  callback that keeps what it is given has them, and no buffer for a size of 0. A buffer
  of 0xFF bytes and one of 0x00 bytes come back from their text.
\<close>

theorem log_dump_hex_roundtrip_witness:
  "dump_writes 4 [0x00, 0xFF, 0x1A, 0x7E] 3 = [''00ff'', ''1a'']
   \<and> hex_decode ''00ff1a'' = Some [0x00, 0xFF, 0x1A]
   \<and> backend (log_dump 4 1 (Some ''net.tcp'') [0x00, 0xFF, 0x1A, 0x7E] 3 None
        (log_set_callbacks None (Some keep_written) None None (unset_registration [])))
      = [Written ''00ff'' 4 1 (Some ''net.tcp'') None,
         Written ''1a'' 2 1 (Some ''net.tcp'') None]
   \<and> backend (log_dump 4 1 (Some ''net.tcp'') [0x00, 0xFF, 0x1A, 0x7E] 0 None
        (log_set_callbacks None (Some keep_written) None None (unset_registration [])))
      = []
   \<and> hex_decode (concat (dump_writes 160 [0xFF, 0xFF] 2)) = Some [0xFF, 0xFF]
   \<and> hex_decode (concat (dump_writes 160 [0x00, 0x00] 2)) = Some [0x00, 0x00]"
proof -
  let ?st = "log_set_callbacks None (Some keep_written) None None
      (unset_registration ([] :: received list))"
  have four: "0 < (4::nat)" and large: "0 < (160::nat)"
    by simp_all
  have cb: "log_write_callback ?st = Some keep_written"
    by (simp add: log_set_callbacks_def)
  have writes: "dump_writes 4 [0x00, 0xFF, 0x1A, 0x7E] 3 = [''00ff'', ''1a'']"
    by (simp add: dump_writes_def hex_encode_def hex_byte_def hex_digit_def chunks.simps)
  note three = log_dump_hex_roundtrip [OF four, of "[0x00, 0xFF, 0x1A, 0x7E]" 3
      "[0x00, 0xFF, 0x1A, 0x7E]" ?st keep_written 1 "Some ''net.tcp''" None]
  note zero = log_dump_hex_roundtrip [OF four, of "[0x00, 0xFF, 0x1A, 0x7E]" 0
      "[0x00, 0xFF, 0x1A, 0x7E]" ?st keep_written 1 "Some ''net.tcp''" None]
  note ones = log_dump_hex_roundtrip [OF large, of "[0xFF, 0xFF]" 2 "[0xFF, 0xFF]"
      ?st keep_written 1 "Some ''net.tcp''" None]
  note zeros = log_dump_hex_roundtrip [OF large, of "[0x00, 0x00]" 2 "[0x00, 0x00]"
      ?st keep_written 1 "Some ''net.tcp''" None]
  from three have "hex_decode (concat (dump_writes 4 [0x00, 0xFF, 0x1A, 0x7E] 3))
      = Some (take 3 [0x00, 0xFF, 0x1A, 0x7E])"
    by blast
  with writes have decoded: "hex_decode ''00ff1a'' = Some [0x00, 0xFF, 0x1A]"
    by simp
  from three cb have "log_dump 4 1 (Some ''net.tcp'') [0x00, 0xFF, 0x1A, 0x7E] 3 None ?st
      = ?st\<lparr>backend :=
              fold (\<lambda>w bk. keep_written w (length w) 1 (Some ''net.tcp'') (reserved_context ?st) bk)
                (dump_writes 4 [0x00, 0xFF, 0x1A, 0x7E] 3) (backend ?st)\<rparr>"
    by blast
  with writes have kept: "backend (log_dump 4 1 (Some ''net.tcp'') [0x00, 0xFF, 0x1A, 0x7E] 3 None ?st)
      = [Written ''00ff'' 4 1 (Some ''net.tcp'') None,
         Written ''1a'' 2 1 (Some ''net.tcp'') None]"
    by (simp add: log_set_callbacks_def unset_registration_def keep_written_def)
  from zero have none: "dump_writes 4 [0x00, 0xFF, 0x1A, 0x7E] 0 = []"
    by blast
  from zero cb have "log_dump 4 1 (Some ''net.tcp'') [0x00, 0xFF, 0x1A, 0x7E] 0 None ?st
      = ?st\<lparr>backend :=
              fold (\<lambda>w bk. keep_written w (length w) 1 (Some ''net.tcp'') (reserved_context ?st) bk)
                (dump_writes 4 [0x00, 0xFF, 0x1A, 0x7E] 0) (backend ?st)\<rparr>"
    by blast
  with none have no_write: "backend (log_dump 4 1 (Some ''net.tcp'') [0x00, 0xFF, 0x1A, 0x7E] 0 None ?st)
      = []"
    by (simp add: log_set_callbacks_def unset_registration_def)
  from ones have "hex_decode (concat (dump_writes 160 [0xFF, 0xFF] 2))
      = Some (take 2 [0xFF, 0xFF])"
    by blast
  then have all_ones: "hex_decode (concat (dump_writes 160 [0xFF, 0xFF] 2))
      = Some [0xFF, 0xFF]"
    by simp
  from zeros have "hex_decode (concat (dump_writes 160 [0x00, 0x00] 2))
      = Some (take 2 [0x00, 0x00])"
    by blast
  then have all_zeros: "hex_decode (concat (dump_writes 160 [0x00, 0x00] 2))
      = Some [0x00, 0x00]"
    by simp
  show ?thesis
    by (intro conjI writes decoded kept no_write all_ones all_zeros)
qed

end
